theory Spec2Isabelle
  imports Complex_Main
begin

section \<open>The network traffic tester (js/network-tester.js)\<close>

text \<open>
  A shallow embedding of the class \<open>NetworkTester\<close>. The script runs on one thread of
  control; every callback (a click, a settled \<open>fetch\<close>, a settled \<open>reader.read()\<close>, a
  timer) runs to its next \<open>await\<close> without interruption. The model therefore is a state
  record and one handler per callback, dispatched by \<open>step\<close> on an \<open>event\<close>.

  Numbers: byte counts are natural numbers (sums of \<open>byteLength\<close>s), timestamps of
  \<open>Date.now()\<close> are integers (milliseconds), every other JavaScript number is an exact
  rational. A division whose JavaScript result is \<open>NaN\<close> or an infinity is the value
  \<open>NonFinite\<close>. Rounding of doubles and the formatting by \<open>toFixed\<close> are not modelled:
  the user interface fields hold the numbers before they are printed.

  Thread objects are shared between the list \<open>activeThreads\<close> and the closures of the
  callbacks, so they live in a store (\<open>heap\<close>) and are named by their index in it.
\<close>

subsection \<open>Data\<close>

datatype traffic_unit = MB | GB | TB

datatype jsnum = Finite rat | NonFinite

record js_error =
  err_name :: string
  err_message :: string

text \<open>The typedef \<open>TestThread\<close>; \<open>aborted\<close> is \<open>controller.signal.aborted\<close>.\<close>

record thread =
  thread_id :: nat
  url :: string
  aborted :: bool
  downloaded :: nat
  isActive :: bool

text \<open>The typedef \<open>TestNode\<close>, without the display name.\<close>

record test_node =
  node_id :: string
  node_url :: string

text \<open>
  The inputs of the form as \<open>validateTestParams\<close> reads them: the value of the node
  selector, the custom URL, \<open>parseInt\<close> of the thread count and \<open>parseFloat\<close> of the
  traffic limit (\<open>None\<close> is \<open>NaN\<close>), and the selected unit.
\<close>

record form =
  speedNodeSelect :: string
  customNodeUrl :: string
  threadCountInput :: "int option"
  trafficLimitInput :: "rat option"
  trafficUnitSelect :: traffic_unit

record params =
  testUrl :: string
  threadCount :: int
  trafficLimit :: rat
  trafficUnit :: traffic_unit

datatype validation_error =
    NoNodeSelected
  | NoCustomUrl
  | BadUrlFormat
  | BadThreadCount
  | BadTrafficLimit

text \<open>
  The lines written by \<open>log\<close> (here \<open>log_line\<close>), one constructor per message of the source, carrying
  the values the message interpolates.
\<close>

datatype log_entry =
    LogValidation validation_error
  | LogTestStarted string int rat traffic_unit
  | LogThreadError nat string
  | LogConnected nat
  | LogReconnecting nat
  | LogTargetReached rat
  | LogAllInterrupted
  | LogThreadStopped nat
  | LogTestStopped rat rat nat

record tester =
  isTesting :: bool
  totalDownloaded :: nat
  targetTrafficBytes :: rat
  startTime :: int
  lastUpdateTime :: int
  lastDownloaded :: nat
  speedHistory :: "rat list"
  updateTimer :: bool
  activeThreads :: "nat list"
  heap :: "thread list"
  reconnectTimers :: "(nat \<times> nat) list"
  requests :: "string list"
  logs :: "log_entry list"
  downloadSpeedElement :: "jsnum option"
  trafficUsedElement :: "(rat \<times> traffic_unit) option"
  progressElement :: "jsnum option"

text \<open>
  Beyond the fields of the class: \<open>heap\<close> is the store of thread objects,
  \<open>reconnectTimers\<close> the pending \<open>setTimeout\<close> callbacks of \<open>readStream\<close> (the thread
  each one captured and its delay in milliseconds), \<open>requests\<close> the URLs passed to
  \<open>fetch\<close> so far, \<open>logs\<close> the log, and the three element fields what the page shows
  (\<open>None\<close> before the script has written them). \<open>updateTimer\<close> tells whether the
  field of that name holds a timer.
\<close>

datatype fetch_result = FetchResponse bool nat | FetchRejected js_error

datatype read_result = ReadChunk "nat option" | ReadDone | ReadRejected js_error

text \<open>
  \<open>ReadChunk (Some n)\<close> is a chunk of \<open>n\<close> bytes, \<open>ReadChunk None\<close> a result whose
  \<open>value\<close> is falsy. \<open>FetchResponse ok status\<close> is a response. Every event carries the
  reading of \<open>Date.now()\<close> its handler would make; \<open>ClickStart\<close> and
  \<open>ReconnectTimeout\<close> also carry the random tokens of \<open>createTestThread\<close>.
\<close>

datatype event =
    ClickStart form int "nat \<Rightarrow> string \<times> int" int
  | ClickStop int
  | FetchSettled nat fetch_result int
  | ReadSettled nat read_result int
  | ReconnectTimeout nat string int
  | Tick int

subsection \<open>Constants of the constructor\<close>

definition testNodes :: "test_node list" where
  "testNodes =
    [\<lparr>node_id = ''cn1'',
      node_url = ''https://issuecdn.baidupcs.com/issue/netdisk/apk/BaiduNetdisk_11.44.3.apk''\<rparr>,
     \<lparr>node_id = ''cn2'',
      node_url = ''https://cloud.video.taobao.com/play/u/null/p/1/e/6/t/1/441113371921.mpv''\<rparr>,
     \<lparr>node_id = ''us1'',
      node_url = ''https://speed.cloudflare.com/__down?bytes=1073741824''\<rparr>,
     \<lparr>node_id = ''custom'', node_url = ''''\<rparr>]"

fun unitMultipliers :: "traffic_unit \<Rightarrow> rat" where
  "unitMultipliers MB = 1024 * 1024"
| "unitMultipliers GB = 1024 * 1024 * 1024"
| "unitMultipliers TB = 1024 * 1024 * 1024 * 1024"

definition speedSmoothingWindow :: nat where
  "speedSmoothingWindow = 10"

definition initial :: tester where
  "initial =
    \<lparr>isTesting = False, totalDownloaded = 0, targetTrafficBytes = 0, startTime = 0,
     lastUpdateTime = 0, lastDownloaded = 0, speedHistory = [], updateTimer = False,
     activeThreads = [], heap = [], reconnectTimers = [], requests = [], logs = [],
     downloadSpeedElement = None, trafficUsedElement = None, progressElement = None\<rparr>"

subsection \<open>Strings\<close>

definition digit_char :: "nat \<Rightarrow> char" where
  "digit_char d = ''0123456789'' ! d"

fun show_nat :: "nat \<Rightarrow> string" where
  "show_nat n = (if n < 10 then [digit_char n] else show_nat (n div 10) @ [digit_char (n mod 10)])"

declare show_nat.simps [simp del]

definition show_int :: "int \<Rightarrow> string" where
  "show_int i = (if i < 0 then CHR ''-'' # show_nat (nat (- i)) else show_nat (nat i))"

definition is_space :: "char \<Rightarrow> bool" where
  "is_space c = (c \<in> set [CHR '' '', CHR 0x09, CHR 0x0A, CHR 0x0B, CHR 0x0C, CHR 0x0D])"

definition trim :: "string \<Rightarrow> string" where
  "trim s = rev (dropWhile is_space (rev (dropWhile is_space s)))"

text \<open>
  The test of \<open>/^https?:\/\/[^\s/$.?#].[^\s]*$/\<close>, for strings of ASCII characters:
  the scheme, one character outside the class, one character that is no line
  terminator, then characters that are not white space up to the end.
\<close>

definition urlPattern_test :: "string \<Rightarrow> bool" where
  "urlPattern_test s =
    (let rest = (if take 8 s = ''https://'' then Some (drop 8 s)
                 else if take 7 s = ''http://'' then Some (drop 7 s) else None)
     in case rest of
          None \<Rightarrow> False
        | Some [] \<Rightarrow> False
        | Some [c] \<Rightarrow> False
        | Some (c # d # cs) \<Rightarrow>
            \<not> is_space c \<and> c \<notin> set ''/$.?#'' \<and> d \<noteq> CHR 0x0A \<and> d \<noteq> CHR 0x0D
            \<and> list_all (\<lambda>x. \<not> is_space x) cs)"

subsection \<open>Validation\<close>

definition validateTestParams :: "form \<Rightarrow> validation_error + params" where
  "validateTestParams f =
    (let selectedNodeId = speedNodeSelect f in
     if selectedNodeId = [] then Inl NoNodeSelected
     else
       let url_res =
         (if selectedNodeId = ''custom'' then
            (let u = trim (customNodeUrl f) in
             if u = [] then Inl NoCustomUrl
             else if \<not> urlPattern_test u then Inl BadUrlFormat
             else Inr u)
          else
            (case find (\<lambda>node. node_id node = selectedNodeId) testNodes of
               Some node \<Rightarrow> Inr (node_url node)
             | None \<Rightarrow> Inr []))
       in case url_res of
            Inl e \<Rightarrow> Inl e
          | Inr u \<Rightarrow>
              (case threadCountInput f of
                 None \<Rightarrow> Inl BadThreadCount
               | Some n \<Rightarrow>
                   if n < 1 \<or> n > 16 then Inl BadThreadCount
                   else
                     (case trafficLimitInput f of
                        None \<Rightarrow> Inl BadTrafficLimit
                      | Some l \<Rightarrow>
                          if l \<le> 0 then Inl BadTrafficLimit
                          else Inr \<lparr>testUrl = u, threadCount = n, trafficLimit = l,
                                    trafficUnit = trafficUnitSelect f\<rparr>)))"

subsection \<open>Display\<close>

definition sizes :: "traffic_unit list" where
  "sizes = [MB, GB, TB]"

text \<open>The \<open>while\<close> loop of \<open>formatTrafficDisplay\<close>.\<close>

function scale_loop :: "rat \<Rightarrow> nat \<Rightarrow> rat \<times> nat" where
  "scale_loop v i =
    (if v \<ge> 1024 \<and> i < length sizes - 1 then scale_loop (v / 1024) (i + 1) else (v, i))"
  by pat_completeness auto
termination
  by (relation "measure (\<lambda>(v, i). length sizes - 1 - i)") auto

declare scale_loop.simps [simp del]

definition formatTrafficDisplay :: "nat \<Rightarrow> rat \<times> traffic_unit" where
  "formatTrafficDisplay bytes =
    (if bytes = 0 then (0, MB)
     else let (v, i) = scale_loop (of_nat bytes / (1024 * 1024)) 0 in (v, sizes ! i))"

definition js_div :: "rat \<Rightarrow> rat \<Rightarrow> jsnum" where
  "js_div a b = (if b = 0 then NonFinite else Finite (a / b))"

text \<open>
  \<open>Math.min(100, (totalDownloaded / targetTrafficBytes) * 100)\<close>. With a target of
  zero the quotient is \<open>Infinity\<close> (the minimum is 100) or, for \<open>0 / 0\<close>, \<open>NaN\<close>.
\<close>

definition progress_of :: "nat \<Rightarrow> rat \<Rightarrow> jsnum" where
  "progress_of tot target =
    (if target = 0 then (if tot = 0 then NonFinite else Finite 100)
     else Finite (min 100 ((of_nat tot / target) * 100)))"

definition jsnum_scale :: "jsnum \<Rightarrow> rat \<Rightarrow> jsnum" where
  "jsnum_scale x d = (case x of Finite q \<Rightarrow> Finite (q / d) | NonFinite \<Rightarrow> NonFinite)"

definition updateProgressUI :: "tester \<Rightarrow> jsnum \<Rightarrow> tester" where
  "updateProgressUI st speed =
    (let speedMBps = jsnum_scale speed (1024 * 1024);
         traffic = formatTrafficDisplay (totalDownloaded st);
         progress = progress_of (totalDownloaded st) (targetTrafficBytes st)
     in st\<lparr>downloadSpeedElement := Some speedMBps,
            trafficUsedElement := Some traffic,
            progressElement := Some progress\<rparr>)"

definition log_line :: "tester \<Rightarrow> log_entry \<Rightarrow> tester" where
  "log_line st entry = st\<lparr>logs := logs st @ [entry]\<rparr>"

subsection \<open>Stopping\<close>

text \<open>
  One round of the \<open>forEach\<close> of \<open>stopTest\<close>: abort the controller, clear the flag,
  log. A reference always names an object of the store.
\<close>

definition abortThread :: "nat \<Rightarrow> tester \<Rightarrow> tester" where
  "abortThread r st =
    (if r < length (heap st) then
       log_line (st\<lparr>heap := (heap st)[r := (heap st ! r)\<lparr>aborted := True, isActive := False\<rparr>]\<rparr>)
           (LogThreadStopped (thread_id (heap st ! r)))
     else st)"

text \<open>
  \<open>stopTest\<close> up to its only \<open>await\<close> (the release of the wake lock, which touches
  nothing here). \<open>now\<close> is the reading of \<open>Date.now()\<close>.
\<close>

definition stopTest :: "tester \<Rightarrow> int \<Rightarrow> tester" where
  "stopTest st now =
    (if \<not> isTesting st then st
     else
       let st1 = st\<lparr>isTesting := False\<rparr>;
           st2 = (if updateTimer st1 then st1\<lparr>updateTimer := False\<rparr> else st1);
           st3 = fold abortThread (activeThreads st2) st2;
           st4 = st3\<lparr>activeThreads := []\<rparr>;
           totalTime = of_int (now - startTime st4) / 1000;
           avgSpeed = (if totalTime > 0
                       then (of_nat (totalDownloaded st4) / totalTime) / (1024 * 1024) else 0);
           st5 = updateProgressUI st4 (js_div (of_nat (totalDownloaded st4)) totalTime)
       in log_line st5 (LogTestStopped totalTime avgSpeed (totalDownloaded st4)))"

subsection \<open>Threads\<close>

definition checkAllThreadsCompleted :: "tester \<Rightarrow> int \<Rightarrow> tester" where
  "checkAllThreadsCompleted st now =
    (let allInactive = list_all (\<lambda>r. \<not> isActive (heap st ! r)) (activeThreads st)
     in if allInactive \<and> isTesting st then stopTest (log_line st LogAllInterrupted) now else st)"

text \<open>The \<open>catch\<close> callback that \<open>createTestThread\<close> attaches to \<open>downloadFile\<close>.\<close>

definition threadCatch :: "tester \<Rightarrow> nat \<Rightarrow> js_error \<Rightarrow> int \<Rightarrow> tester" where
  "threadCatch st r e now =
    (let st1 = (if err_name e \<noteq> ''AbortError''
                then log_line st (LogThreadError (thread_id (heap st ! r)) (err_message e)) else st);
         st2 = st1\<lparr>heap := (heap st1)[r := (heap st1 ! r)\<lparr>isActive := False\<rparr>]\<rparr>
     in checkAllThreadsCompleted st2 now)"

text \<open>
  \<open>createTestThread\<close> up to the call of \<open>fetch\<close> inside \<open>downloadFile\<close>; \<open>rand\<close> is
  \<open>Math.random().toString(36).substring(7)\<close>.
\<close>

definition createTestThread :: "tester \<Rightarrow> nat \<Rightarrow> string \<Rightarrow> string \<Rightarrow> int \<Rightarrow> tester" where
  "createTestThread st threadId baseUrl rand now =
    (let testUrl = baseUrl @ ''?thread='' @ show_nat threadId @ ''&r='' @ rand
                   @ ''&t='' @ show_int now;
         thread = \<lparr>thread_id = threadId, url = testUrl, aborted = False, downloaded = 0,
                   isActive = True\<rparr>
     in st\<lparr>heap := heap st @ [thread],
            activeThreads := activeThreads st @ [length (heap st)],
            requests := requests st @ [testUrl]\<rparr>)"

text \<open>\<open>thread.url.split('?')[0]\<close> is the text before the first question mark.\<close>

definition reconnectThread :: "tester \<Rightarrow> nat \<Rightarrow> string \<Rightarrow> int \<Rightarrow> tester" where
  "reconnectThread st r rand now =
    (let thread = heap st ! r;
         st1 = st\<lparr>activeThreads :=
                  filter (\<lambda>t. thread_id (heap st ! t) \<noteq> thread_id thread) (activeThreads st)\<rparr>;
         baseUrl = takeWhile (\<lambda>c. c \<noteq> CHR ''?'') (url thread)
     in createTestThread st1 (thread_id thread) baseUrl rand now)"

text \<open>The callback of the \<open>setTimeout\<close> in \<open>readStream\<close>.\<close>

definition reconnectCallback :: "tester \<Rightarrow> nat \<Rightarrow> string \<Rightarrow> int \<Rightarrow> tester" where
  "reconnectCallback st r rand now = (if isTesting st then reconnectThread st r rand now else st)"

text \<open>
  \<open>downloadFile\<close> from the moment its \<open>fetch\<close> settles. A rejection, or the \<open>Error\<close>
  thrown for a response that is not ok, reaches \<open>threadCatch\<close>. Otherwise the line is
  logged and \<open>readStream\<close> makes its first read.
\<close>

definition fetchSettled :: "tester \<Rightarrow> nat \<Rightarrow> fetch_result \<Rightarrow> int \<Rightarrow> tester" where
  "fetchSettled st r res now =
    (case res of
       FetchRejected e \<Rightarrow> threadCatch st r e now
     | FetchResponse ok status \<Rightarrow>
         if \<not> ok then
           threadCatch st r
             \<lparr>err_name = ''Error'', err_message = ''HTTP error! status: '' @ show_nat status\<rparr> now
         else log_line st (LogConnected (thread_id (heap st ! r))))"

text \<open>
  One turn of the loop of \<open>readStream\<close>, from the moment \<open>reader.read()\<close> settles. An
  error that is not an \<open>AbortError\<close> is thrown again and reaches \<open>threadCatch\<close>.
\<close>

definition readSettled :: "tester \<Rightarrow> nat \<Rightarrow> read_result \<Rightarrow> int \<Rightarrow> tester" where
  "readSettled st r res now =
    (case res of
       ReadDone \<Rightarrow>
         (log_line st (LogReconnecting (thread_id (heap st ! r))))
           \<lparr>reconnectTimers := reconnectTimers st @ [(r, 1000)]\<rparr>
     | ReadChunk None \<Rightarrow> st
     | ReadChunk (Some chunkSize) \<Rightarrow>
         (let st1 = st\<lparr>heap := (heap st)[r := (heap st ! r)
                                  \<lparr>downloaded := downloaded (heap st ! r) + chunkSize\<rparr>],
                       totalDownloaded := totalDownloaded st + chunkSize\<rparr>
          in if of_nat (totalDownloaded st1) \<ge> targetTrafficBytes st1
             then log_line (stopTest st1 now) (LogTargetReached (targetTrafficBytes st1))
             else st1)
     | ReadRejected e \<Rightarrow>
         if err_name e \<noteq> ''AbortError'' then threadCatch st r e now else st)"

subsection \<open>Progress\<close>

definition updateProgress :: "tester \<Rightarrow> int \<Rightarrow> tester" where
  "updateProgress st now =
    (let interval = now - lastUpdateTime st;
         downloadedInInterval = (of_nat (totalDownloaded st) - of_nat (lastDownloaded st) :: rat);
         currentSpeed = (if interval > 0
                         then downloadedInInterval / (of_int interval / 1000) else 0);
         h1 = speedHistory st @ [currentSpeed];
         h2 = (if length h1 > speedSmoothingWindow then tl h1 else h1);
         averageSpeed = sum_list h2 / of_nat (length h2);
         st1 = updateProgressUI (st\<lparr>speedHistory := h2\<rparr>) (Finite averageSpeed)
     in st1\<lparr>lastUpdateTime := now, lastDownloaded := totalDownloaded st1\<rparr>)"

text \<open>The closure \<open>update\<close> of \<open>startProgressUpdate\<close>.\<close>

definition update :: "tester \<Rightarrow> int \<Rightarrow> tester" where
  "update st now =
    (if \<not> isTesting st then st else (updateProgress st now)\<lparr>updateTimer := True\<rparr>)"

subsection \<open>Starting\<close>

text \<open>
  \<open>startTest\<close>. The wake lock is taken to be acquired with no other callback running in
  between. \<open>env i\<close> is the random token and the clock of the \<open>i\<close>-th call of
  \<open>createTestThread\<close>, \<open>now2\<close> the clock of the first \<open>update\<close>.
\<close>

definition startTest :: "tester \<Rightarrow> form \<Rightarrow> int \<Rightarrow> (nat \<Rightarrow> string \<times> int) \<Rightarrow> int \<Rightarrow> tester" where
  "startTest st f now env now2 =
    (if isTesting st then st
     else case validateTestParams f of
       Inl e \<Rightarrow> log_line st (LogValidation e)
     | Inr p \<Rightarrow>
         (let st1 = st\<lparr>targetTrafficBytes := trafficLimit p * unitMultipliers (trafficUnit p)\<rparr>;
              st2 = st1\<lparr>isTesting := True, totalDownloaded := 0, lastDownloaded := 0,
                        speedHistory := [], startTime := now, lastUpdateTime := now,
                        activeThreads := []\<rparr>;
              st3 = log_line st2 (LogTestStarted (speedNodeSelect f) (threadCount p)
                               (trafficLimit p) (trafficUnit p));
              st4 = fold (\<lambda>i s. createTestThread s i (testUrl p) (fst (env i)) (snd (env i)))
                         [0..<nat (threadCount p)] st3
          in update st4 now2))"

subsection \<open>The callbacks as events\<close>

text \<open>
  A settled \<open>fetch\<close> or read belongs to an object of the store; a reconnect callback
  runs when its timer is pending (and the timer is then spent); the progress callback
  runs when its timer has not been cleared. Which operation of a thread is in flight is
  not part of the state: the trace says what settles, and how. Aborting a controller
  rejects an operation that is still pending with an \<open>AbortError\<close>; a read that has
  already resolved with a chunk keeps its value, and the rest of \<open>readStream\<close> runs with it
  after the abort. \<open>run\<close> handles a list of events in order.
\<close>

definition step :: "tester \<Rightarrow> event \<Rightarrow> tester" where
  "step st ev =
    (case ev of
       ClickStart f now env now2 \<Rightarrow> startTest st f now env now2
     | ClickStop now \<Rightarrow> stopTest st now
     | FetchSettled r res now \<Rightarrow> (if r < length (heap st) then fetchSettled st r res now else st)
     | ReadSettled r res now \<Rightarrow> (if r < length (heap st) then readSettled st r res now else st)
     | ReconnectTimeout r rand now \<Rightarrow>
         (if (r, 1000) \<in> set (reconnectTimers st)
          then reconnectCallback (st\<lparr>reconnectTimers := remove1 (r, 1000) (reconnectTimers st)\<rparr>)
                 r rand now
          else st)
     | Tick now \<Rightarrow> (if updateTimer st then update st now else st))"

definition run :: "tester \<Rightarrow> event list \<Rightarrow> tester" where
  "run st evs = foldl step st evs"

subsection \<open>Traces of a session\<close>

text \<open>
  \<open>is_start\<close> tells the click on the start button from the events inside a session,
  \<open>is_tick\<close> the callback of the progress timer from the other events.
  \<open>failure_of\<close> names the thread whose download an event ends with a transport error
  (a rejected \<open>fetch\<close>, a response that is not ok, a failed read; never an
  \<open>AbortError\<close>). \<open>chunk_size\<close> is the number of bytes an event delivers.
  \<open>session_io\<close> holds for the traffic of a running session: chunks, responses,
  transport errors and ticks of the progress timer. \<open>stops\<close> holds for the two events
  that stop a running session: the click on the stop button, and the chunk that takes the
  total to the target.
\<close>

fun is_start :: "event \<Rightarrow> bool" where
  "is_start (ClickStart f now env now2) = True"
| "is_start _ = False"

fun is_tick :: "event \<Rightarrow> bool" where
  "is_tick (Tick now) = True"
| "is_tick _ = False"

fun failure_of :: "event \<Rightarrow> nat option" where
  "failure_of (FetchSettled r (FetchRejected e) now) =
     (if err_name e \<noteq> ''AbortError'' then Some r else None)"
| "failure_of (FetchSettled r (FetchResponse ok status) now) = (if ok then None else Some r)"
| "failure_of (ReadSettled r (ReadRejected e) now) =
     (if err_name e \<noteq> ''AbortError'' then Some r else None)"
| "failure_of ev = None"

fun chunk_size :: "event \<Rightarrow> nat" where
  "chunk_size (ReadSettled r (ReadChunk (Some n)) now) = n"
| "chunk_size ev = 0"

fun session_io :: "event \<Rightarrow> bool" where
  "session_io (ReadSettled r (ReadChunk v) now) = True"
| "session_io (FetchSettled r (FetchResponse True status) now) = True"
| "session_io (Tick now) = True"
| "session_io ev = (failure_of ev \<noteq> None)"

fun stops :: "tester \<Rightarrow> event \<Rightarrow> bool" where
  "stops st (ClickStop now) = True"
| "stops st (ReadSettled q (ReadChunk (Some n)) now) =
     (q < length (heap st) \<and> targetTrafficBytes st \<le> of_nat (totalDownloaded st + n))"
| "stops st ev = False"

definition failed_refs :: "event list \<Rightarrow> nat set" where
  "failed_refs evs = set (List.map_filter failure_of evs)"

definition chunk_bytes :: "event list \<Rightarrow> nat" where
  "chunk_bytes evs = sum_list (map chunk_size evs)"

text \<open>
  The number of lines "all threads interrupted" in the log, and the threads of
  \<open>activeThreads\<close> whose flag \<open>isActive\<close> is set.
\<close>

definition interruptedCount :: "tester \<Rightarrow> nat" where
  "interruptedCount st = length (filter (\<lambda>l. l = LogAllInterrupted) (logs st))"

definition active_set :: "tester \<Rightarrow> nat set" where
  "active_set st = {q \<in> set (activeThreads st). isActive (heap st ! q)}"

text \<open>
  A running session has a positive target that the total has not reached.
\<close>

definition below_budget :: "tester \<Rightarrow> bool" where
  "below_budget st =
    (isTesting st \<longrightarrow> 0 < targetTrafficBytes st
       \<and> of_nat (totalDownloaded st) < targetTrafficBytes st)"

subsection \<open>The estimator and the progress in the words of the specification\<close>

text \<open>
  The specification of the speed estimator: the instantaneous rate is the bytes since
  the last sample divided by the seconds since the last sample, and 0 when that time is
  not positive; a sample is appended to a sequence of capacity 10, the oldest one dropped
  when the sequence is full; the smoothed rate is the arithmetic mean of the sequence.
  The specification of the progress: \<open>min(100, 100 * totalDownloaded / targetBytes)\<close>.
\<close>

definition spec_instantRate :: "rat \<Rightarrow> rat \<Rightarrow> rat" where
  "spec_instantRate deltaBytes deltaTime = (if deltaTime > 0 then deltaBytes / deltaTime else 0)"

definition spec_append :: "rat list \<Rightarrow> rat \<Rightarrow> rat list" where
  "spec_append samples x = (if length samples \<ge> 10 then tl samples @ [x] else samples @ [x])"

definition spec_mean :: "rat list \<Rightarrow> rat" where
  "spec_mean samples = sum_list samples / of_nat (length samples)"

definition spec_progress :: "tester \<Rightarrow> rat" where
  "spec_progress st = min 100 (100 * of_nat (totalDownloaded st) / targetTrafficBytes st)"

subsection \<open>Example inputs\<close>

text \<open>
  A form with a preset node, the random tokens and clock of a start, a session of two
  threads with a target of 1 MB (just started, and after both threads connected and one
  chunk of 1,000,000 bytes arrived), two errors, and three traces. Then one chunk between
  two ticks; two chunks of 65536 bytes, read by the two threads of the example session,
  both resolved before either is handled; and a session restarted within the delay of a
  reconnect, whose stale reconnect is followed by chunks that reach the target of 1 MB.
\<close>

definition example_env :: "int \<Rightarrow> nat \<Rightarrow> string \<times> int" where
  "example_env t i = (''r'' @ show_nat i, t)"

definition example_form :: "string \<Rightarrow> int \<Rightarrow> rat \<Rightarrow> traffic_unit \<Rightarrow> form" where
  "example_form node n l u =
    \<lparr>speedNodeSelect = node, customNodeUrl = '''', threadCountInput = Some n,
     trafficLimitInput = Some l, trafficUnitSelect = u\<rparr>"

definition example_start :: tester where
  "example_start = run initial [ClickStart (example_form ''cn1'' 2 1 MB) 0 (example_env 0) 0]"

definition example_session :: tester where
  "example_session = run example_start
     [FetchSettled 0 (FetchResponse True 200) 40,
      FetchSettled 1 (FetchResponse True 200) 50,
      ReadSettled 0 (ReadChunk (Some 1000000)) 100]"

definition abort_error :: js_error where
  "abort_error = \<lparr>err_name = ''AbortError'', err_message = ''The user aborted a request.''\<rparr>"

definition network_error :: js_error where
  "network_error = \<lparr>err_name = ''TypeError'', err_message = ''Failed to fetch''\<rparr>"

definition example_failures :: "event list" where
  "example_failures =
    [FetchSettled 0 (FetchRejected network_error) 30,
     FetchSettled 1 (FetchResponse True 200) 40,
     ReadSettled 1 (ReadChunk (Some 1000)) 60,
     Tick 100,
     ReadSettled 1 (ReadRejected network_error) 120]"

definition restart_trace :: "event list" where
  "restart_trace =
    [ClickStart (example_form ''cn1'' 1 1 GB) 0 (example_env 0) 0,
     FetchSettled 0 (FetchResponse True 200) 50,
     ReadSettled 0 ReadDone 500,
     ClickStop 700,
     ClickStart (example_form ''cn1'' 1 1 GB) 900 (example_env 900) 900,
     ReconnectTimeout 0 ''r9'' 1500]"

definition cloudflare_trace :: "event list" where
  "cloudflare_trace =
    [ClickStart (example_form ''us1'' 1 1 GB) 0 (example_env 0) 0,
     FetchSettled 0 (FetchResponse True 200) 50,
     ReadSettled 0 ReadDone 500,
     ReconnectTimeout 0 ''r9'' 1500]"

definition example_chunk_events :: "event list" where
  "example_chunk_events = [ReadSettled 1 (ReadChunk (Some 20000)) 250]"

definition overshoot_trace :: "event list" where
  "overshoot_trace =
    [ReadSettled 1 (ReadChunk (Some 65536)) 200,
     ReadSettled 0 (ReadChunk (Some 65536)) 200]"

definition orphan_prefix :: "event list" where
  "orphan_prefix =
    [ClickStart (example_form ''cn1'' 1 1 MB) 0 (example_env 0) 0,
     FetchSettled 0 (FetchResponse True 200) 50,
     ReadSettled 0 ReadDone 500,
     ClickStop 700,
     ClickStart (example_form ''cn1'' 1 1 MB) 900 (example_env 900) 900,
     ReconnectTimeout 0 ''r9'' 1500]"

definition orphan_trace :: "event list" where
  "orphan_trace = orphan_prefix @
    [FetchSettled 1 (FetchResponse True 200) 1550,
     FetchSettled 2 (FetchResponse True 200) 1600,
     ReadSettled 2 (ReadChunk (Some 1000000)) 1700,
     ReadSettled 2 (ReadChunk (Some 65536)) 1800]"

section \<open>Properties\<close>

subsection \<open>What each handler leaves alone\<close>

lemma fold_abortThread_fields:
  "isTesting (fold abortThread rs st) = isTesting st"
  "totalDownloaded (fold abortThread rs st) = totalDownloaded st"
  "targetTrafficBytes (fold abortThread rs st) = targetTrafficBytes st"
  "startTime (fold abortThread rs st) = startTime st"
  "lastUpdateTime (fold abortThread rs st) = lastUpdateTime st"
  "lastDownloaded (fold abortThread rs st) = lastDownloaded st"
  "speedHistory (fold abortThread rs st) = speedHistory st"
  "updateTimer (fold abortThread rs st) = updateTimer st"
  "activeThreads (fold abortThread rs st) = activeThreads st"
  "reconnectTimers (fold abortThread rs st) = reconnectTimers st"
  "requests (fold abortThread rs st) = requests st"
  "length (heap (fold abortThread rs st)) = length (heap st)"
  by (induction rs arbitrary: st; simp add: abortThread_def log_line_def)+

lemma updateProgressUI_fields:
  "isTesting (updateProgressUI st sp) = isTesting st"
  "totalDownloaded (updateProgressUI st sp) = totalDownloaded st"
  "targetTrafficBytes (updateProgressUI st sp) = targetTrafficBytes st"
  "startTime (updateProgressUI st sp) = startTime st"
  "lastUpdateTime (updateProgressUI st sp) = lastUpdateTime st"
  "lastDownloaded (updateProgressUI st sp) = lastDownloaded st"
  "speedHistory (updateProgressUI st sp) = speedHistory st"
  "updateTimer (updateProgressUI st sp) = updateTimer st"
  "activeThreads (updateProgressUI st sp) = activeThreads st"
  "reconnectTimers (updateProgressUI st sp) = reconnectTimers st"
  "requests (updateProgressUI st sp) = requests st"
  "heap (updateProgressUI st sp) = heap st"
  "logs (updateProgressUI st sp) = logs st"
  by (simp_all add: updateProgressUI_def Let_def)

lemma log_line_fields:
  "isTesting (log_line st e) = isTesting st"
  "totalDownloaded (log_line st e) = totalDownloaded st"
  "targetTrafficBytes (log_line st e) = targetTrafficBytes st"
  "startTime (log_line st e) = startTime st"
  "lastUpdateTime (log_line st e) = lastUpdateTime st"
  "lastDownloaded (log_line st e) = lastDownloaded st"
  "speedHistory (log_line st e) = speedHistory st"
  "updateTimer (log_line st e) = updateTimer st"
  "activeThreads (log_line st e) = activeThreads st"
  "reconnectTimers (log_line st e) = reconnectTimers st"
  "requests (log_line st e) = requests st"
  "heap (log_line st e) = heap st"
  "logs (log_line st e) = logs st @ [e]"
  "downloadSpeedElement (log_line st e) = downloadSpeedElement st"
  "trafficUsedElement (log_line st e) = trafficUsedElement st"
  "progressElement (log_line st e) = progressElement st"
  by (simp_all add: log_line_def)

lemma stopTest_fields:
  "\<not> isTesting (stopTest st now)"
  "totalDownloaded (stopTest st now) = totalDownloaded st"
  "targetTrafficBytes (stopTest st now) = targetTrafficBytes st"
  "startTime (stopTest st now) = startTime st"
  "lastUpdateTime (stopTest st now) = lastUpdateTime st"
  "lastDownloaded (stopTest st now) = lastDownloaded st"
  "speedHistory (stopTest st now) = speedHistory st"
  "reconnectTimers (stopTest st now) = reconnectTimers st"
  "requests (stopTest st now) = requests st"
  "length (heap (stopTest st now)) = length (heap st)"
  by (simp_all add: stopTest_def Let_def log_line_fields updateProgressUI_fields
      fold_abortThread_fields)

lemma stopTest_running:
  assumes "isTesting st"
  shows "activeThreads (stopTest st now) = []"
    and "\<not> updateTimer (stopTest st now)"
  using assms
  by (simp_all add: stopTest_def Let_def log_line_fields updateProgressUI_fields
      fold_abortThread_fields)

lemma stopTest_idle: "\<not> isTesting st \<Longrightarrow> stopTest st now = st"
  by (simp add: stopTest_def)

lemma checkAllThreadsCompleted_isTesting:
  "isTesting (checkAllThreadsCompleted st now) \<Longrightarrow> isTesting st"
  by (simp add: checkAllThreadsCompleted_def Let_def stopTest_fields split: if_splits)

lemma checkAllThreadsCompleted_fields:
  "totalDownloaded (checkAllThreadsCompleted st now) = totalDownloaded st"
  "targetTrafficBytes (checkAllThreadsCompleted st now) = targetTrafficBytes st"
  "speedHistory (checkAllThreadsCompleted st now) = speedHistory st"
  "requests (checkAllThreadsCompleted st now) = requests st"
  "reconnectTimers (checkAllThreadsCompleted st now) = reconnectTimers st"
  "length (heap (checkAllThreadsCompleted st now)) = length (heap st)"
  by (simp_all add: checkAllThreadsCompleted_def Let_def stopTest_fields log_line_fields)

lemma threadCatch_isTesting:
  "isTesting (threadCatch st r e now) \<Longrightarrow> isTesting st"
  unfolding threadCatch_def Let_def
  by (drule checkAllThreadsCompleted_isTesting) (simp add: log_line_fields split: if_splits)

lemma threadCatch_fields:
  "totalDownloaded (threadCatch st r e now) = totalDownloaded st"
  "targetTrafficBytes (threadCatch st r e now) = targetTrafficBytes st"
  "speedHistory (threadCatch st r e now) = speedHistory st"
  "requests (threadCatch st r e now) = requests st"
  "reconnectTimers (threadCatch st r e now) = reconnectTimers st"
  "length (heap (threadCatch st r e now)) = length (heap st)"
  by (simp_all add: threadCatch_def Let_def checkAllThreadsCompleted_fields log_line_fields)

lemma fetchSettled_isTesting:
  "isTesting (fetchSettled st r res now) \<Longrightarrow> isTesting st"
  by (cases res) (auto simp add: fetchSettled_def log_line_fields
      dest: threadCatch_isTesting split: if_splits)

lemma fetchSettled_fields:
  "totalDownloaded (fetchSettled st r res now) = totalDownloaded st"
  "targetTrafficBytes (fetchSettled st r res now) = targetTrafficBytes st"
  "speedHistory (fetchSettled st r res now) = speedHistory st"
  "requests (fetchSettled st r res now) = requests st"
  "length (heap (fetchSettled st r res now)) = length (heap st)"
  by (cases res; simp add: fetchSettled_def threadCatch_fields log_line_fields)+

lemma readSettled_isTesting:
  "isTesting (readSettled st r res now) \<Longrightarrow> isTesting st"
  by (cases res) (auto simp add: readSettled_def Let_def log_line_fields stopTest_fields
      dest: threadCatch_isTesting split: if_splits option.splits)

lemma readSettled_fields:
  "totalDownloaded st \<le> totalDownloaded (readSettled st r res now)"
  "targetTrafficBytes (readSettled st r res now) = targetTrafficBytes st"
  "speedHistory (readSettled st r res now) = speedHistory st"
  "requests (readSettled st r res now) = requests st"
  "length (heap (readSettled st r res now)) = length (heap st)"
  by (cases res; simp add: readSettled_def Let_def threadCatch_fields log_line_fields
      stopTest_fields split: option.splits)+

lemma createTestThread_fields:
  "isTesting (createTestThread st i b rand now) = isTesting st"
  "totalDownloaded (createTestThread st i b rand now) = totalDownloaded st"
  "targetTrafficBytes (createTestThread st i b rand now) = targetTrafficBytes st"
  "speedHistory (createTestThread st i b rand now) = speedHistory st"
  "startTime (createTestThread st i b rand now) = startTime st"
  "lastUpdateTime (createTestThread st i b rand now) = lastUpdateTime st"
  "lastDownloaded (createTestThread st i b rand now) = lastDownloaded st"
  "updateTimer (createTestThread st i b rand now) = updateTimer st"
  "logs (createTestThread st i b rand now) = logs st"
  "reconnectTimers (createTestThread st i b rand now) = reconnectTimers st"
  "length (heap (createTestThread st i b rand now)) = Suc (length (heap st))"
  by (simp_all add: createTestThread_def Let_def)

lemma reconnectCallback_fields:
  "isTesting (reconnectCallback st r rand now) = isTesting st"
  "totalDownloaded (reconnectCallback st r rand now) = totalDownloaded st"
  "targetTrafficBytes (reconnectCallback st r rand now) = targetTrafficBytes st"
  "speedHistory (reconnectCallback st r rand now) = speedHistory st"
  "logs (reconnectCallback st r rand now) = logs st"
  by (simp_all add: reconnectCallback_def reconnectThread_def Let_def createTestThread_fields)

lemma updateProgress_fields:
  "isTesting (updateProgress st now) = isTesting st"
  "totalDownloaded (updateProgress st now) = totalDownloaded st"
  "targetTrafficBytes (updateProgress st now) = targetTrafficBytes st"
  "activeThreads (updateProgress st now) = activeThreads st"
  "heap (updateProgress st now) = heap st"
  "logs (updateProgress st now) = logs st"
  "requests (updateProgress st now) = requests st"
  "reconnectTimers (updateProgress st now) = reconnectTimers st"
  by (simp_all add: updateProgress_def Let_def updateProgressUI_fields)

lemma update_fields:
  "isTesting (update st now) = isTesting st"
  "totalDownloaded (update st now) = totalDownloaded st"
  "targetTrafficBytes (update st now) = targetTrafficBytes st"
  "activeThreads (update st now) = activeThreads st"
  "heap (update st now) = heap st"
  "logs (update st now) = logs st"
  "requests (update st now) = requests st"
  "reconnectTimers (update st now) = reconnectTimers st"
  by (simp_all add: update_def updateProgress_fields)

lemma fold_createTestThread_fields:
  "isTesting (fold (\<lambda>i s. createTestThread s i b (f i) (g i)) is st) = isTesting st"
  "totalDownloaded (fold (\<lambda>i s. createTestThread s i b (f i) (g i)) is st) = totalDownloaded st"
  "targetTrafficBytes (fold (\<lambda>i s. createTestThread s i b (f i) (g i)) is st)
     = targetTrafficBytes st"
  "speedHistory (fold (\<lambda>i s. createTestThread s i b (f i) (g i)) is st) = speedHistory st"
  "startTime (fold (\<lambda>i s. createTestThread s i b (f i) (g i)) is st) = startTime st"
  "lastUpdateTime (fold (\<lambda>i s. createTestThread s i b (f i) (g i)) is st) = lastUpdateTime st"
  "lastDownloaded (fold (\<lambda>i s. createTestThread s i b (f i) (g i)) is st) = lastDownloaded st"
  "logs (fold (\<lambda>i s. createTestThread s i b (f i) (g i)) is st) = logs st"
  by (induction "is" arbitrary: st; simp add: createTestThread_fields)+

lemma checkAllThreadsCompleted_last_sample:
  "lastUpdateTime (checkAllThreadsCompleted st now) = lastUpdateTime st"
  "lastDownloaded (checkAllThreadsCompleted st now) = lastDownloaded st"
  by (simp_all add: checkAllThreadsCompleted_def Let_def stopTest_fields log_line_fields)

lemma threadCatch_last_sample:
  "lastUpdateTime (threadCatch st r e now) = lastUpdateTime st"
  "lastDownloaded (threadCatch st r e now) = lastDownloaded st"
  by (simp_all add: threadCatch_def Let_def checkAllThreadsCompleted_last_sample log_line_fields)

lemma fetchSettled_last_sample:
  "lastUpdateTime (fetchSettled st r res now) = lastUpdateTime st"
  "lastDownloaded (fetchSettled st r res now) = lastDownloaded st"
  by (cases res; simp add: fetchSettled_def threadCatch_last_sample log_line_fields)+

lemma readSettled_last_sample:
  "lastUpdateTime (readSettled st r res now) = lastUpdateTime st"
  "lastDownloaded (readSettled st r res now) = lastDownloaded st"
  by (cases res; simp add: readSettled_def Let_def threadCatch_last_sample log_line_fields
      stopTest_fields split: option.splits)+

lemma reconnectCallback_last_sample:
  "lastUpdateTime (reconnectCallback st r rand now) = lastUpdateTime st"
  "lastDownloaded (reconnectCallback st r rand now) = lastDownloaded st"
  by (simp_all add: reconnectCallback_def reconnectThread_def Let_def createTestThread_fields)

lemma updateProgress_stores:
  "lastUpdateTime (updateProgress st now) = now"
  "lastDownloaded (updateProgress st now) = totalDownloaded st"
  by (simp_all add: updateProgress_def Let_def updateProgressUI_fields)

lemma fold_abortThread_heap:
  "q < length (heap st) \<Longrightarrow>
     heap (fold abortThread rs st) ! q =
       (if q \<in> set rs then (heap st ! q)\<lparr>aborted := True, isActive := False\<rparr> else heap st ! q)"
proof (induction rs arbitrary: st)
  case Nil
  then show ?case by simp
next
  case (Cons r rs)
  have len: "length (heap (abortThread r st)) = length (heap st)"
    by (simp add: abortThread_def log_line_fields)
  have hd: "heap (abortThread r st) ! k =
      (if k = r then (heap st ! k)\<lparr>aborted := True, isActive := False\<rparr> else heap st ! k)"
    if "k < length (heap st)" for k
    using that by (simp add: abortThread_def log_line_fields)
  show ?case
    using Cons.IH [of "abortThread r st"] Cons.prems hd [of q]
    by (cases "q = r") (simp_all add: len)
qed

lemma stopTest_heap:
  "isTesting st \<Longrightarrow> q < length (heap st) \<Longrightarrow>
     heap (stopTest st now) ! q =
       (if q \<in> set (activeThreads st)
        then (heap st ! q)\<lparr>aborted := True, isActive := False\<rparr> else heap st ! q)"
  by (simp add: stopTest_def Let_def log_line_fields updateProgressUI_fields
      fold_abortThread_heap)

subsection \<open>Validation and start\<close>

lemma updateProgress_history_le:
  "length (speedHistory st) \<le> 10 \<Longrightarrow> length (speedHistory (updateProgress st now)) \<le> 10"
  by (simp add: updateProgress_def Let_def updateProgressUI_fields speedSmoothingWindow_def)

lemma update_history_le:
  "length (speedHistory st) \<le> 10 \<Longrightarrow> length (speedHistory (update st now)) \<le> 10"
  by (simp add: update_def updateProgress_history_le)

lemma startTest_accepted:
  "\<not> isTesting st \<Longrightarrow> validateTestParams f = Inr p \<Longrightarrow>
   targetTrafficBytes (startTest st f now env now2) = trafficLimit p * unitMultipliers (trafficUnit p)
   \<and> totalDownloaded (startTest st f now env now2) = 0
   \<and> isTesting (startTest st f now env now2)
   \<and> length (speedHistory (startTest st f now env now2)) \<le> 10"
  by (simp add: startTest_def Let_def update_fields fold_createTestThread_fields log_line_fields
       update_history_le)

lemma startTest_rejected:
  "validateTestParams f = Inl e \<Longrightarrow> startTest st f now env now2 =
     (if isTesting st then st else log_line st (LogValidation e))"
  by (simp add: startTest_def)

lemma validateTestParams_accepted:
  "validateTestParams f = Inr p \<Longrightarrow>
     0 < trafficLimit p \<and> 1 \<le> threadCount p \<and> threadCount p \<le> 16
     \<and> trafficLimitInput f = Some (trafficLimit p) \<and> trafficUnit p = trafficUnitSelect f"
  by (auto simp add: validateTestParams_def Let_def split: if_splits option.splits sum.splits)

lemma unitMultipliers_pos: "0 < unitMultipliers u"
  by (cases u) simp_all

subsection \<open>Invariants of every run\<close>

lemma run_snoc: "run st (evs @ [ev]) = step (run st evs) ev"
  by (simp add: run_def)

lemma run_Nil: "run st [] = st"
  by (simp add: run_def)

lemma run_Cons: "run st (ev # evs) = run (step st ev) evs"
  by (simp add: run_def)

lemma run_append: "run st (xs @ ys) = run (run st xs) ys"
  by (simp add: run_def)

lemma tick_running:
  "isTesting st \<Longrightarrow> updateTimer st \<Longrightarrow>
     step st (Tick now) = (updateProgress st now)\<lparr>updateTimer := True\<rparr>"
  by (simp add: step_def update_def)

lemma startTest_history_le:
  "length (speedHistory st) \<le> 10 \<Longrightarrow> length (speedHistory (startTest st f now env now2)) \<le> 10"
proof (cases "validateTestParams f")
  case (Inl e)
  then show "length (speedHistory st) \<le> 10 \<Longrightarrow> ?thesis"
    by (simp add: startTest_rejected log_line_fields)
next
  case (Inr p)
  then show "length (speedHistory st) \<le> 10 \<Longrightarrow> ?thesis"
    using startTest_accepted [of st f p now env now2]
    by (cases "isTesting st") (simp_all add: startTest_def)
qed

lemma step_history_le:
  "length (speedHistory st) \<le> 10 \<Longrightarrow> length (speedHistory (step st ev)) \<le> 10"
  by (cases ev)
    (simp_all add: step_def startTest_history_le stopTest_fields fetchSettled_fields
      readSettled_fields reconnectCallback_fields update_history_le)

lemma run_history_le:
  "length (speedHistory st) \<le> 10 \<Longrightarrow> length (speedHistory (run st evs)) \<le> 10"
  by (induction evs rule: rev_induct) (simp_all add: run_Nil run_snoc step_history_le)

lemma step_total_mono:
  "\<not> is_start ev \<Longrightarrow>
     totalDownloaded st \<le> totalDownloaded (step st ev)
     \<and> targetTrafficBytes (step st ev) = targetTrafficBytes st"
  by (cases ev)
    (simp_all add: step_def stopTest_fields fetchSettled_fields readSettled_fields
      reconnectCallback_fields update_fields)

lemma run_total_mono:
  "\<forall>ev \<in> set evs. \<not> is_start ev \<Longrightarrow>
     totalDownloaded st \<le> totalDownloaded (run st evs)
     \<and> targetTrafficBytes (run st evs) = targetTrafficBytes st"
proof (induction evs rule: rev_induct)
  case Nil
  then show ?case by (simp add: run_Nil)
next
  case (snoc ev evs)
  then show ?case
    using step_total_mono [of ev "run st evs"] by (auto simp add: run_snoc)
qed

lemma step_last_sample:
  "\<not> is_start ev \<Longrightarrow> \<not> is_tick ev \<Longrightarrow>
     lastUpdateTime (step st ev) = lastUpdateTime st
     \<and> lastDownloaded (step st ev) = lastDownloaded st
     \<and> speedHistory (step st ev) = speedHistory st"
  by (cases ev)
    (simp_all add: step_def stopTest_fields fetchSettled_fields fetchSettled_last_sample
      readSettled_fields readSettled_last_sample reconnectCallback_fields
      reconnectCallback_last_sample)

lemma run_last_sample:
  "\<forall>ev \<in> set evs. \<not> is_start ev \<and> \<not> is_tick ev \<Longrightarrow>
     lastUpdateTime (run st evs) = lastUpdateTime st
     \<and> lastDownloaded (run st evs) = lastDownloaded st
     \<and> speedHistory (run st evs) = speedHistory st"
proof (induction evs rule: rev_induct)
  case Nil
  then show ?case by (simp add: run_Nil)
next
  case (snoc ev evs)
  then show ?case
    using step_last_sample [of ev "run st evs"] by (simp add: run_snoc)
qed

text \<open>
  Every state reached from the initial one is below its budget while it is running:
  the chunk that reaches the target stops the session in the same step.
\<close>

lemma readSettled_below_budget:
  "below_budget st \<Longrightarrow> below_budget (readSettled st r res now)"
proof (cases "isTesting st")
  case False
  then show ?thesis
    using readSettled_isTesting [of st r res now] by (auto simp add: below_budget_def)
next
  case True
  assume b: "below_budget st"
  show ?thesis
  proof (cases res)
    case (ReadChunk v)
    then show ?thesis using b True
      by (cases v)
        (simp_all add: below_budget_def readSettled_def Let_def log_line_fields stopTest_fields
          not_le)
  next
    case ReadDone
    then show ?thesis using b
      by (simp add: below_budget_def readSettled_def log_line_fields)
  next
    case (ReadRejected e)
    then show ?thesis using b threadCatch_isTesting [of st r e now]
      by (auto simp add: below_budget_def readSettled_def threadCatch_fields)
  qed
qed

lemma startTest_below_budget:
  "below_budget st \<Longrightarrow> below_budget (startTest st f now env now2)"
proof (cases "validateTestParams f")
  case (Inl e)
  then show "below_budget st \<Longrightarrow> ?thesis"
    by (simp add: startTest_rejected log_line_fields below_budget_def)
next
  case (Inr p)
  then show "below_budget st \<Longrightarrow> ?thesis"
    using startTest_accepted [of st f p now env now2] validateTestParams_accepted [of f p]
      unitMultipliers_pos [of "trafficUnit p"]
    by (cases "isTesting st") (simp_all add: startTest_def below_budget_def)
qed

lemma step_below_budget: "below_budget st \<Longrightarrow> below_budget (step st ev)"
proof (cases ev)
  case (ClickStart f now env now2)
  then show "below_budget st \<Longrightarrow> ?thesis" by (simp add: step_def startTest_below_budget)
next
  case (ClickStop now)
  then show "below_budget st \<Longrightarrow> ?thesis" by (simp add: step_def below_budget_def stopTest_fields)
next
  case (FetchSettled r res now)
  then show "below_budget st \<Longrightarrow> ?thesis"
    using fetchSettled_isTesting [of st r res now]
    by (auto simp add: step_def below_budget_def fetchSettled_fields)
next
  case (ReadSettled r res now)
  then show "below_budget st \<Longrightarrow> ?thesis" by (simp add: step_def readSettled_below_budget)
next
  case (ReconnectTimeout r rand now)
  then show "below_budget st \<Longrightarrow> ?thesis"
    by (simp add: step_def below_budget_def reconnectCallback_fields)
next
  case (Tick now)
  then show "below_budget st \<Longrightarrow> ?thesis"
    by (simp add: step_def below_budget_def update_fields)
qed

lemma run_below_budget: "below_budget st \<Longrightarrow> below_budget (run st evs)"
  by (induction evs rule: rev_induct) (simp_all add: run_Nil run_snoc step_below_budget)

lemma initial_below_budget: "below_budget initial"
  by (simp add: below_budget_def initial_def)

subsection \<open>The example session\<close>

lemma example_start_facts:
  "isTesting example_start"
  "updateTimer example_start"
  "activeThreads example_start = [0, 1]"
  "length (heap example_start) = 2"
  "totalDownloaded example_start = 0"
  "lastDownloaded example_start = 0"
  "lastUpdateTime example_start = 0"
  "targetTrafficBytes example_start = 1048576"
  "speedHistory example_start = [0]"
  "logs example_start = [LogTestStarted ''cn1'' 2 1 MB]"
  by code_simp+

lemma example_session_facts:
  "isTesting example_session"
  "updateTimer example_session"
  "activeThreads example_session = [0, 1]"
  "length (heap example_session) = 2"
  "totalDownloaded example_session = 1000000"
  "lastDownloaded example_session = 0"
  "lastUpdateTime example_session = 0"
  "targetTrafficBytes example_session = 1048576"
  "speedHistory example_session = [0]"
  by (simp_all add: example_session_def run_Cons run_Nil step_def fetchSettled_def
      readSettled_def Let_def log_line_fields example_start_facts)


lemma orphan_prefix_facts:
  "isTesting (run initial (orphan_prefix))"
  "activeThreads (run initial (orphan_prefix)) = [2]"
  "length (heap (run initial (orphan_prefix))) = 3"
  "totalDownloaded (run initial (orphan_prefix)) = 0"
  "targetTrafficBytes (run initial (orphan_prefix)) = 1048576"
  "isActive (heap (run initial (orphan_prefix)) ! 1)"
  "\<not> aborted (heap (run initial (orphan_prefix)) ! 1)"
  "thread_id (heap (run initial (orphan_prefix)) ! 1) = 0"
  by code_simp+

subsection \<open>Stopping at the budget\<close>

text \<open>
  What holds of the step that reaches the budget: in a running session, when a chunk
  takes the total from below the target to the target or beyond, the step that adds the
  chunk also stops the session: \<open>isTesting\<close> is false, the progress timer is cleared,
  every thread of \<open>activeThreads\<close> is aborted and inactive, the list is empty, and the
  line "target reached" is logged. Right after that step the total exceeds the target by
  less than the size of that chunk.
\<close>

lemma budget_stop_synchronous:
  assumes "isTesting st" and "r < length (heap st)"
    and "of_nat (totalDownloaded st) < targetTrafficBytes st"
    and "targetTrafficBytes st \<le> of_nat (totalDownloaded st + n)"
  shows "\<not> isTesting (step st (ReadSettled r (ReadChunk (Some n)) now))
    \<and> activeThreads (step st (ReadSettled r (ReadChunk (Some n)) now)) = []
    \<and> \<not> updateTimer (step st (ReadSettled r (ReadChunk (Some n)) now))
    \<and> (\<forall>q \<in> set (activeThreads st). q < length (heap st) \<longrightarrow>
          aborted (heap (step st (ReadSettled r (ReadChunk (Some n)) now)) ! q)
          \<and> \<not> isActive (heap (step st (ReadSettled r (ReadChunk (Some n)) now)) ! q))
    \<and> totalDownloaded (step st (ReadSettled r (ReadChunk (Some n)) now)) = totalDownloaded st + n
    \<and> of_nat (totalDownloaded (step st (ReadSettled r (ReadChunk (Some n)) now)))
        - targetTrafficBytes st < of_nat n
    \<and> last (logs (step st (ReadSettled r (ReadChunk (Some n)) now)))
        = LogTargetReached (targetTrafficBytes st)"
proof -
  define st1 where "st1 = st\<lparr>heap := (heap st)[r := (heap st ! r)
                                  \<lparr>downloaded := downloaded (heap st ! r) + n\<rparr>],
                       totalDownloaded := totalDownloaded st + n\<rparr>"
  have s: "step st (ReadSettled r (ReadChunk (Some n)) now)
      = log_line (stopTest st1 now) (LogTargetReached (targetTrafficBytes st))"
    using assms by (simp add: step_def readSettled_def Let_def st1_def)
  have r1: "isTesting st1" "activeThreads st1 = activeThreads st"
    "length (heap st1) = length (heap st)" "totalDownloaded st1 = totalDownloaded st + n"
    using assms by (simp_all add: st1_def)
  have h: "aborted (heap (stopTest st1 now) ! q) \<and> \<not> isActive (heap (stopTest st1 now) ! q)"
    if "q \<in> set (activeThreads st)" "q < length (heap st)" for q
    using that r1 stopTest_heap [of st1 q now] by simp
  show ?thesis
    unfolding s using assms r1 h stopTest_running [of st1 now]
    by (simp add: log_line_fields stopTest_fields)
qed

lemma budget_stop_synchronous_witness:
  "isTesting example_session \<and> (1 :: nat) < length (heap example_session)
   \<and> of_nat (totalDownloaded example_session) < targetTrafficBytes example_session
   \<and> targetTrafficBytes example_session \<le> of_nat (totalDownloaded example_session + 65536)
   \<and> \<not> isTesting (step example_session (ReadSettled 1 (ReadChunk (Some 65536)) 200))
   \<and> activeThreads (step example_session (ReadSettled 1 (ReadChunk (Some 65536)) 200)) = []
   \<and> totalDownloaded (step example_session (ReadSettled 1 (ReadChunk (Some 65536)) 200))
       = 1065536
   \<and> aborted (heap (step example_session (ReadSettled 1 (ReadChunk (Some 65536)) 200)) ! 0)
   \<and> aborted (heap (step example_session (ReadSettled 1 (ReadChunk (Some 65536)) 200)) ! 1)"
proof -
  have h: "isTesting example_session" "(1 :: nat) < length (heap example_session)"
    "of_nat (totalDownloaded example_session) < targetTrafficBytes example_session"
    "targetTrafficBytes example_session \<le> of_nat (totalDownloaded example_session + 65536)"
    by (simp_all add: example_session_facts)
  from budget_stop_synchronous [OF h, of 200] h show ?thesis
    by (simp add: example_session_facts)
qed

text \<open>
  What the step does not reach: a thread object that is not in \<open>activeThreads\<close> is left
  as it is, a chunk below the target only moves the counters, and in a stopped session
  a chunk is still added to the total and to the thread, whatever the flags of the thread
  are: \<open>readStream\<close> tests \<open>isTesting\<close> and \<open>isActive\<close> before the read, not after it.
\<close>

lemma chunk_counted_when_stopped:
  assumes "\<not> isTesting s" and "r < length (heap s)"
  shows "totalDownloaded (step s (ReadSettled r (ReadChunk (Some n)) now)) = totalDownloaded s + n
    \<and> downloaded (heap (step s (ReadSettled r (ReadChunk (Some n)) now)) ! r)
        = downloaded (heap s ! r) + n
    \<and> \<not> isTesting (step s (ReadSettled r (ReadChunk (Some n)) now))
    \<and> targetTrafficBytes (step s (ReadSettled r (ReadChunk (Some n)) now)) = targetTrafficBytes s
    \<and> length (heap (step s (ReadSettled r (ReadChunk (Some n)) now))) = length (heap s)"
  using assms
  by (simp add: step_def readSettled_def Let_def stopTest_idle log_line_fields)

lemma chunk_below_budget:
  assumes "isTesting s" and "r < length (heap s)"
    and "of_nat (totalDownloaded s + n) < targetTrafficBytes s"
  shows "step s (ReadSettled r (ReadChunk (Some n)) now) =
     s\<lparr>heap := (heap s)[r := (heap s ! r)\<lparr>downloaded := downloaded (heap s ! r) + n\<rparr>],
       totalDownloaded := totalDownloaded s + n\<rparr>"
  using assms by (simp add: step_def readSettled_def Let_def not_le)

lemma budget_stop_skips_unlisted:
  assumes "isTesting st" and "r < length (heap st)"
    and "targetTrafficBytes st \<le> of_nat (totalDownloaded st + n)"
    and "q < length (heap st)" and "q \<notin> set (activeThreads st)" and "q \<noteq> r"
  shows "heap (step st (ReadSettled r (ReadChunk (Some n)) now)) ! q = heap st ! q"
proof -
  define st1 where "st1 = st\<lparr>heap := (heap st)[r := (heap st ! r)
                                  \<lparr>downloaded := downloaded (heap st ! r) + n\<rparr>],
                       totalDownloaded := totalDownloaded st + n\<rparr>"
  have s: "step st (ReadSettled r (ReadChunk (Some n)) now)
      = log_line (stopTest st1 now) (LogTargetReached (targetTrafficBytes st))"
    using assms by (simp add: step_def readSettled_def Let_def st1_def)
  have r1: "isTesting st1" "activeThreads st1 = activeThreads st"
    "length (heap st1) = length (heap st)" "heap st1 ! q = heap st ! q"
    using assms by (simp_all add: st1_def)
  show ?thesis
    unfolding s using assms r1 stopTest_heap [of st1 q now]
    by (simp add: log_line_fields)
qed

text \<open>
  C1: the claim says that the stop at the budget cancels all workers and that the total
  never exceeds the budget by more than the chunk that crossed it. The stop itself is
  synchronous (\<open>budget_stop_synchronous\<close>), but the total goes on growing. In the example
  session (target 1,048,576, total 1,000,000) both threads have a read resolved with
  65536 bytes: the chunk of thread 1 stops the session at 1,065,536, and the chunk of the
  aborted thread 0 is added after it, so the total ends at 1,131,072, which is 82,496
  above the target. And after a restart within the delay of a reconnect, the worker of
  the new session (object 1) is no longer in \<open>activeThreads\<close>: the stop at the budget
  leaves it active and not aborted.
\<close>

theorem budget_overshoot_after_stop:
  "targetTrafficBytes example_session = 1048576
   \<and> totalDownloaded example_session = 1000000
   \<and> \<not> isTesting (run example_session (take 1 overshoot_trace))
   \<and> totalDownloaded (run example_session (take 1 overshoot_trace)) = 1065536
   \<and> aborted (heap (run example_session (take 1 overshoot_trace)) ! 0)
   \<and> totalDownloaded (run example_session overshoot_trace) = 1131072
   \<and> targetTrafficBytes (run example_session overshoot_trace) = 1048576
   \<and> \<not> of_nat (totalDownloaded (run example_session overshoot_trace))
          - targetTrafficBytes (run example_session overshoot_trace) \<le> of_nat 65536
   \<and> isTesting (run initial orphan_prefix)
   \<and> activeThreads (run initial orphan_prefix) = [2]
   \<and> isActive (heap (run initial orphan_prefix) ! 1)
   \<and> \<not> isTesting (run initial orphan_trace)
   \<and> totalDownloaded (run initial orphan_trace) = 1065536
   \<and> isActive (heap (run initial orphan_trace) ! 1)
   \<and> \<not> aborted (heap (run initial orphan_trace) ! 1)"
proof -
  define s1 where "s1 = step example_session (ReadSettled 1 (ReadChunk (Some 65536)) 200)"
  have h: "isTesting example_session" "(1 :: nat) < length (heap example_session)"
    "of_nat (totalDownloaded example_session) < targetTrafficBytes example_session"
    "targetTrafficBytes example_session \<le> of_nat (totalDownloaded example_session + 65536)"
    by (simp_all add: example_session_facts)
  have a: "\<not> isTesting s1" "totalDownloaded s1 = 1065536" "aborted (heap s1 ! 0)"
    using budget_stop_synchronous [OF h, of 200]
    by (simp_all add: s1_def example_session_facts)
  have l: "length (heap s1) = 2" "targetTrafficBytes s1 = 1048576"
    by (simp_all add: s1_def step_def readSettled_fields example_session_facts)
  have b: "totalDownloaded (step s1 (ReadSettled 0 (ReadChunk (Some 65536)) 200)) = 1131072"
    "targetTrafficBytes (step s1 (ReadSettled 0 (ReadChunk (Some 65536)) 200)) = 1048576"
    using chunk_counted_when_stopped [of s1 0 65536 200] a l by simp_all
  have r1: "run example_session (take 1 overshoot_trace) = s1"
    by (simp add: overshoot_trace_def run_Cons run_Nil s1_def)
  have r2: "run example_session overshoot_trace
      = step s1 (ReadSettled 0 (ReadChunk (Some 65536)) 200)"
    by (simp add: overshoot_trace_def run_Cons run_Nil s1_def)
  define p where "p = run initial (orphan_prefix)"
  note pf = orphan_prefix_facts [folded p_def]
  define p7 where "p7 = step p (FetchSettled 1 (FetchResponse True 200) 1550)"
  define p8 where "p8 = step p7 (FetchSettled 2 (FetchResponse True 200) 1600)"
  define p9 where "p9 = step p8 (ReadSettled 2 (ReadChunk (Some 1000000)) 1700)"
  define p10 where "p10 = step p9 (ReadSettled 2 (ReadChunk (Some 65536)) 1800)"
  have f7: "isTesting p7" "activeThreads p7 = [2]" "length (heap p7) = 3"
    "totalDownloaded p7 = 0" "targetTrafficBytes p7 = 1048576" "heap p7 ! 1 = heap p ! 1"
    using pf by (simp_all add: p7_def step_def fetchSettled_def log_line_fields)
  have f8: "isTesting p8" "activeThreads p8 = [2]" "length (heap p8) = 3"
    "totalDownloaded p8 = 0" "targetTrafficBytes p8 = 1048576" "heap p8 ! 1 = heap p ! 1"
    using f7 by (simp_all add: p8_def step_def fetchSettled_def log_line_fields)
  have e9: "p9 = p8\<lparr>heap := (heap p8)[2 := (heap p8 ! 2)
        \<lparr>downloaded := downloaded (heap p8 ! 2) + 1000000\<rparr>],
       totalDownloaded := totalDownloaded p8 + 1000000\<rparr>"
    unfolding p9_def using f8 by (intro chunk_below_budget) simp_all
  have f9: "isTesting p9" "activeThreads p9 = [2]" "length (heap p9) = 3"
    "totalDownloaded p9 = 1000000" "targetTrafficBytes p9 = 1048576" "heap p9 ! 1 = heap p ! 1"
    using f8 by (simp_all add: e9)
  have h9: "isTesting p9" "(2 :: nat) < length (heap p9)"
    "of_nat (totalDownloaded p9) < targetTrafficBytes p9"
    "targetTrafficBytes p9 \<le> of_nat (totalDownloaded p9 + 65536)"
    by (simp_all add: f9)
  have f10: "\<not> isTesting p10" "totalDownloaded p10 = 1065536"
    using budget_stop_synchronous [OF h9, of 1800] by (simp_all add: p10_def f9)
  have g10: "heap p10 ! 1 = heap p ! 1"
    unfolding p10_def
    using budget_stop_skips_unlisted [of p9 2 65536 1 1800] f9 by simp
  have o10: "run initial orphan_trace = p10"
    by (simp add: orphan_trace_def run_append run_Cons run_Nil p_def p7_def p8_def p9_def
        p10_def)
  show ?thesis
    unfolding r1 r2 o10 using a b f10 g10 pf
    by (simp add: example_session_facts p_def [symmetric])
qed

subsection \<open>The speed estimator\<close>

lemma updateProgress_history:
  "speedHistory (updateProgress st now) =
     spec_append (speedHistory st)
       (spec_instantRate (of_nat (totalDownloaded st) - of_nat (lastDownloaded st))
          (of_int (now - lastUpdateTime st) / 1000))"
  by (cases "speedHistory st")
    (simp_all add: updateProgress_def Let_def updateProgressUI_fields spec_append_def
      spec_instantRate_def speedSmoothingWindow_def)

text \<open>
  C2: a tick of a running session is \<open>updateProgress\<close>. It appends the instantaneous
  rate of the specification, computed from the total and the clock stored by the last
  sample (0 when the time is not positive), to the history as the specification says (the
  oldest sample leaves when the history holds 10), the history never holds more than 10
  samples in any state reached from the initial one, and the rate shown (in MB/s) is the
  mean of the history. The tick stores its clock and the total; no event other than a
  tick or a start changes them or the history; so the sample of the next tick is the
  bytes downloaded since this tick divided by the seconds elapsed since this tick.
\<close>

theorem updateProgress_sample:
  "speedHistory (updateProgress st now) =
     spec_append (speedHistory st)
       (spec_instantRate (of_nat (totalDownloaded st) - of_nat (lastDownloaded st))
          (of_int (now - lastUpdateTime st) / 1000))
   \<and> downloadSpeedElement (updateProgress st now) =
       Some (Finite (spec_mean (speedHistory (updateProgress st now)) / (1024 * 1024)))
   \<and> (length (speedHistory st) \<le> 10 \<longrightarrow> length (speedHistory (updateProgress st now)) \<le> 10)
   \<and> length (speedHistory (run initial evs)) \<le> 10
   \<and> (isTesting st \<and> updateTimer st \<longrightarrow>
        step st (Tick now) = (updateProgress st now)\<lparr>updateTimer := True\<rparr>)
   \<and> lastUpdateTime (updateProgress st now) = now
   \<and> lastDownloaded (updateProgress st now) = totalDownloaded st
   \<and> (isTesting st \<and> updateTimer st
        \<and> (\<forall>ev \<in> set evs2. \<not> is_start ev \<and> \<not> is_tick ev)
        \<and> isTesting (run (step st (Tick now)) evs2)
        \<and> updateTimer (run (step st (Tick now)) evs2) \<longrightarrow>
        speedHistory (step (run (step st (Tick now)) evs2) (Tick now2)) =
          spec_append (speedHistory (step st (Tick now)))
            (spec_instantRate
               (of_nat (totalDownloaded (run (step st (Tick now)) evs2))
                  - of_nat (totalDownloaded st))
               (of_int (now2 - now) / 1000)))"
proof -
  have b: "downloadSpeedElement (updateProgress st now) =
       Some (Finite (spec_mean (speedHistory (updateProgress st now)) / (1024 * 1024)))"
    by (simp add: updateProgress_def Let_def updateProgressUI_def spec_mean_def jsnum_scale_def)
  have c: "length (speedHistory (run initial evs)) \<le> 10"
    by (rule run_history_le) (simp add: initial_def)
  have d: "length (speedHistory st) \<le> 10 \<longrightarrow> length (speedHistory (updateProgress st now)) \<le> 10"
    by (simp add: updateProgress_history_le)
  have e: "isTesting st \<and> updateTimer st \<longrightarrow>
      step st (Tick now) = (updateProgress st now)\<lparr>updateTimer := True\<rparr>"
    by (simp add: tick_running)
  have f: "speedHistory (step (run (step st (Tick now)) evs2) (Tick now2)) =
          spec_append (speedHistory (step st (Tick now)))
            (spec_instantRate
               (of_nat (totalDownloaded (run (step st (Tick now)) evs2))
                  - of_nat (totalDownloaded st))
               (of_int (now2 - now) / 1000))"
    if t: "isTesting st" "updateTimer st"
      and q: "\<forall>ev \<in> set evs2. \<not> is_start ev \<and> \<not> is_tick ev"
      and t2: "isTesting (run (step st (Tick now)) evs2)"
        "updateTimer (run (step st (Tick now)) evs2)"
  proof -
    define s1 where "s1 = step st (Tick now)"
    define s2 where "s2 = run s1 evs2"
    have s1: "lastUpdateTime s1 = now" "lastDownloaded s1 = totalDownloaded st"
      unfolding s1_def by (simp_all add: tick_running t updateProgress_stores)
    have s2: "lastUpdateTime s2 = now" "lastDownloaded s2 = totalDownloaded st"
      "speedHistory s2 = speedHistory s1"
      unfolding s2_def using run_last_sample [OF q, of s1] s1 by simp_all
    have "speedHistory (step s2 (Tick now2)) = speedHistory (updateProgress s2 now2)"
      using t2 by (simp add: tick_running s2_def s1_def)
    then show ?thesis
      unfolding updateProgress_history s2 by (simp add: s2_def s1_def)
  qed
  from updateProgress_history [of st now] b c d e updateProgress_stores [of st now] f
  show ?thesis by blast
qed

theorem updateProgress_sample_witness:
  "isTesting example_session \<and> updateTimer example_session
   \<and> length (speedHistory example_session) \<le> 10
   \<and> speedHistory (updateProgress example_session 200) = [0, 5000000]
   \<and> length (speedHistory (updateProgress example_session 200)) \<le> 10
   \<and> downloadSpeedElement (updateProgress example_session 200)
       = Some (Finite (2500000 / (1024 * 1024)))
   \<and> step example_session (Tick 200) = (updateProgress example_session 200)\<lparr>updateTimer := True\<rparr>
   \<and> lastUpdateTime (updateProgress example_session 200) = 200
   \<and> lastDownloaded (updateProgress example_session 200) = 1000000
   \<and> list_all (\<lambda>ev. \<not> is_start ev \<and> \<not> is_tick ev) example_chunk_events
   \<and> isTesting (run (step example_session (Tick 200)) example_chunk_events)
   \<and> updateTimer (run (step example_session (Tick 200)) example_chunk_events)
   \<and> totalDownloaded (run (step example_session (Tick 200)) example_chunk_events) = 1020000
   \<and> speedHistory (step (run (step example_session (Tick 200)) example_chunk_events) (Tick 300))
       = [0, 5000000, 200000]"
proof -
  note T = updateProgress_sample [of example_session 200 "[]" example_chunk_events 300]
  define t1 where "t1 = step example_session (Tick 200)"
  have t1: "t1 = (updateProgress example_session 200)\<lparr>updateTimer := True\<rparr>"
    by (simp add: t1_def tick_running example_session_facts)
  have ft: "isTesting t1" "updateTimer t1" "length (heap t1) = 2" "totalDownloaded t1 = 1000000"
    "targetTrafficBytes t1 = 1048576"
    by (simp_all add: t1 updateProgress_fields example_session_facts)
  have e2: "run t1 example_chunk_events =
      t1\<lparr>heap := (heap t1)[1 := (heap t1 ! 1)\<lparr>downloaded := downloaded (heap t1 ! 1) + 20000\<rparr>],
         totalDownloaded := totalDownloaded t1 + 20000\<rparr>"
    unfolding example_chunk_events_def run_Cons run_Nil
    using ft by (intro chunk_below_budget) simp_all
  have f2: "isTesting (run t1 example_chunk_events)"
    "updateTimer (run t1 example_chunk_events)"
    "totalDownloaded (run t1 example_chunk_events) = 1020000"
    unfolding e2 using ft by simp_all
  have q: "\<forall>ev \<in> set example_chunk_events. \<not> is_start ev \<and> \<not> is_tick ev"
    by (simp add: example_chunk_events_def)
  have q': "list_all (\<lambda>ev. \<not> is_start ev \<and> \<not> is_tick ev) example_chunk_events"
    by (simp add: example_chunk_events_def)
  have "speedHistory (updateProgress example_session 200) =
     spec_append (speedHistory example_session)
       (spec_instantRate
          (of_nat (totalDownloaded example_session) - of_nat (lastDownloaded example_session))
          (of_int (200 - lastUpdateTime example_session) / 1000))"
    using T by blast
  then have h1: "speedHistory (updateProgress example_session 200) = [0, 5000000]"
    by (simp add: example_session_facts spec_append_def spec_instantRate_def)
  have "downloadSpeedElement (updateProgress example_session 200) =
       Some (Finite (spec_mean (speedHistory (updateProgress example_session 200))
          / (1024 * 1024)))"
    using T by blast
  then have h2: "downloadSpeedElement (updateProgress example_session 200)
       = Some (Finite (2500000 / (1024 * 1024)))"
    by (simp add: h1 spec_mean_def)
  have h3: "lastUpdateTime (updateProgress example_session 200) = 200"
    "lastDownloaded (updateProgress example_session 200) = totalDownloaded example_session"
    using T by blast+
  have "speedHistory (step (run t1 example_chunk_events) (Tick 300)) =
          spec_append (speedHistory t1)
            (spec_instantRate
               (of_nat (totalDownloaded (run t1 example_chunk_events))
                  - of_nat (totalDownloaded example_session))
               (of_int (300 - 200) / 1000))"
    using T q f2 example_session_facts(1,2) unfolding t1_def by blast
  moreover have "speedHistory t1 = [0, 5000000]"
    by (simp add: t1 h1)
  ultimately have h4: "speedHistory (step (run t1 example_chunk_events) (Tick 300))
      = [0, 5000000, 200000]"
    by (simp add: f2 example_session_facts spec_append_def spec_instantRate_def)
  have h5: "length (speedHistory example_session) \<le> 10"
    "length (speedHistory (updateProgress example_session 200)) \<le> 10"
    by (simp_all add: h1 example_session_facts)
  from example_session_facts(1,2) h5 h1 h2 t1 h3 q' f2 h4
  show ?thesis
    unfolding t1_def by (simp add: example_session_facts(5))
qed

subsection \<open>Cancellation\<close>

lemma stops_aborts:
  assumes "isTesting st" and "stops st ev" and "r \<in> set (activeThreads st)"
    and "r < length (heap st)"
  shows "aborted (heap (step st ev) ! r) \<and> \<not> isTesting (step st ev)
     \<and> r < length (heap (step st ev))"
proof (cases ev)
  case (ClickStop now)
  then show ?thesis
    using assms stopTest_heap [of st r now] by (simp add: step_def stopTest_fields)
next
  case (ReadSettled q res now)
  show ?thesis
  proof (cases res)
    case (ReadChunk v)
    show ?thesis
    proof (cases v)
      case None
      with ReadChunk ReadSettled assms show ?thesis by simp
    next
      case (Some n)
      define st1 where "st1 = st\<lparr>heap := (heap st)[q := (heap st ! q)
                                  \<lparr>downloaded := downloaded (heap st ! q) + n\<rparr>],
                       totalDownloaded := totalDownloaded st + n\<rparr>"
      have s: "step st ev = log_line (stopTest st1 now) (LogTargetReached (targetTrafficBytes st))"
        using Some ReadChunk ReadSettled assms
        by (simp add: step_def readSettled_def Let_def st1_def)
      have r1: "isTesting st1" "activeThreads st1 = activeThreads st"
        "length (heap st1) = length (heap st)"
        using assms by (simp_all add: st1_def)
      show ?thesis
        unfolding s using assms r1 stopTest_heap [of st1 r now]
        by (simp add: log_line_fields stopTest_fields)
    qed
  qed (use ReadSettled assms in simp_all)
qed (use assms in simp_all)

lemma abort_rejection_clean:
  assumes "\<not> isTesting s" and "err_name e = ''AbortError''"
  shows "step s (ReadSettled r (ReadRejected e) t) = s
     \<and> logs (step s (FetchSettled r (FetchRejected e) t)) = logs s
     \<and> totalDownloaded (step s (FetchSettled r (FetchRejected e) t)) = totalDownloaded s
     \<and> \<not> isTesting (step s (FetchSettled r (FetchRejected e) t))"
  using assms
  by (simp add: step_def readSettled_def fetchSettled_def threadCatch_def Let_def
      checkAllThreadsCompleted_def)

text \<open>
  What holds of a cancellation: when a running session is stopped (by the stop button or
  by the chunk that reaches the target), every thread of \<open>activeThreads\<close> has its
  controller aborted. If the operation in flight of such a thread settles as a rejection
  named \<open>AbortError\<close>, a read changes nothing at all (no log line, no byte), and a
  \<open>fetch\<close> reaches the \<open>catch\<close> callback, which logs nothing and leaves the total alone.
\<close>

lemma cancellation_is_clean:
  assumes "isTesting st" and "stops st ev" and "r \<in> set (activeThreads st)"
    and "r < length (heap st)" and "err_name e = ''AbortError''"
  shows "aborted (heap (step st ev) ! r)
     \<and> step (step st ev) (ReadSettled r (ReadRejected e) t) = step st ev
     \<and> logs (step (step st ev) (FetchSettled r (FetchRejected e) t)) = logs (step st ev)
     \<and> totalDownloaded (step (step st ev) (FetchSettled r (FetchRejected e) t))
         = totalDownloaded (step st ev)"
  using stops_aborts [OF assms(1-4)] abort_rejection_clean [of "step st ev" e r t] assms(5)
  by simp

lemma cancellation_is_clean_witness:
  "isTesting example_session \<and> stops example_session (ClickStop 300)
   \<and> (1 :: nat) \<in> set (activeThreads example_session)
   \<and> (1 :: nat) < length (heap example_session)
   \<and> err_name abort_error = ''AbortError''
   \<and> aborted (heap (step example_session (ClickStop 300)) ! 1)
   \<and> step (step example_session (ClickStop 300)) (ReadSettled 1 (ReadRejected abort_error) 301)
       = step example_session (ClickStop 300)
   \<and> logs (step (step example_session (ClickStop 300))
             (FetchSettled 1 (FetchRejected abort_error) 301))
       = logs (step example_session (ClickStop 300))"
proof -
  have h: "isTesting example_session" "stops example_session (ClickStop 300)"
    "(1 :: nat) \<in> set (activeThreads example_session)"
    "(1 :: nat) < length (heap example_session)"
    "err_name abort_error = ''AbortError''"
    by (simp_all add: example_session_facts abort_error_def)
  from cancellation_is_clean [OF h, of 301] h show ?thesis by simp
qed


subsection \<open>All workers fail\<close>

lemma fold_abortThread_interrupted:
  "interruptedCount (fold abortThread rs st) = interruptedCount st"
  by (induction rs arbitrary: st) (simp_all add: abortThread_def log_line_def interruptedCount_def)

lemma stopTest_interrupted: "interruptedCount (stopTest st now) = interruptedCount st"
proof -
  have "interruptedCount (updateProgressUI s x) = interruptedCount s" for s x
    by (simp add: interruptedCount_def updateProgressUI_fields)
  moreover have "interruptedCount (s\<lparr>activeThreads := a\<rparr>) = interruptedCount s" for s a
    by (simp add: interruptedCount_def)
  moreover have "interruptedCount (s\<lparr>updateTimer := b\<rparr>) = interruptedCount s" for s b
    by (simp add: interruptedCount_def)
  moreover have "interruptedCount (s\<lparr>isTesting := b\<rparr>) = interruptedCount s" for s b
    by (simp add: interruptedCount_def)
  moreover have "interruptedCount (log_line s (LogTestStopped a b c)) = interruptedCount s"
    for s a b c
    by (simp add: interruptedCount_def log_line_fields)
  ultimately show ?thesis
    by (simp add: stopTest_def Let_def fold_abortThread_interrupted)
qed

lemma list_all_inactive:
  "list_all (\<lambda>q. \<not> isActive (heap st ! q)) (activeThreads st) \<longleftrightarrow> active_set st = {}"
  by (auto simp add: list_all_iff active_set_def)

lemma threadCatch_effect:
  assumes "isTesting st" and "err_name e \<noteq> ''AbortError''" and "r < length (heap st)"
  shows "if active_set st \<subseteq> {r}
         then \<not> isTesting (threadCatch st r e now)
              \<and> interruptedCount (threadCatch st r e now) = interruptedCount st + 1
         else isTesting (threadCatch st r e now)
              \<and> interruptedCount (threadCatch st r e now) = interruptedCount st
              \<and> activeThreads (threadCatch st r e now) = activeThreads st
              \<and> active_set (threadCatch st r e now) = active_set st - {r}"
proof -
  define st2 where "st2 = (log_line st (LogThreadError (thread_id (heap st ! r)) (err_message e)))
      \<lparr>heap := (heap st)[r := (heap st ! r)\<lparr>isActive := False\<rparr>]\<rparr>"
  have tc: "threadCatch st r e now = checkAllThreadsCompleted st2 now"
    using assms(2) by (simp add: threadCatch_def Let_def st2_def log_line_fields)
  have f: "isTesting st2" "activeThreads st2 = activeThreads st"
    "interruptedCount st2 = interruptedCount st"
    using assms(1) by (simp_all add: st2_def log_line_fields interruptedCount_def)
  have a: "active_set st2 = active_set st - {r}"
    using assms(3) by (auto simp add: active_set_def st2_def log_line_fields nth_list_update)
  have e: "active_set st2 = {} \<longleftrightarrow> active_set st \<subseteq> {r}"
    unfolding a by blast
  have ic: "interruptedCount (log_line st2 LogAllInterrupted) = interruptedCount st + 1"
    using f(3) by (simp add: interruptedCount_def log_line_fields)
  show ?thesis
  proof (cases "active_set st \<subseteq> {r}")
    case True
    then have "checkAllThreadsCompleted st2 now = stopTest (log_line st2 LogAllInterrupted) now"
      using e f(1) by (simp add: checkAllThreadsCompleted_def list_all_inactive)
    then show ?thesis
      using True ic by (simp add: tc stopTest_fields stopTest_interrupted)
  next
    case False
    then have "checkAllThreadsCompleted st2 now = st2"
      using e by (simp add: checkAllThreadsCompleted_def list_all_inactive)
    then show ?thesis
      using False f a by (simp add: tc)
  qed
qed

lemma step_failure:
  assumes "isTesting st" and "failure_of ev = Some r" and "r < length (heap st)"
  shows "if active_set st \<subseteq> {r}
         then \<not> isTesting (step st ev) \<and> interruptedCount (step st ev) = interruptedCount st + 1
         else isTesting (step st ev)
              \<and> interruptedCount (step st ev) = interruptedCount st
              \<and> activeThreads (step st ev) = activeThreads st
              \<and> active_set (step st ev) = active_set st - {r}
              \<and> length (heap (step st ev)) = length (heap st)
              \<and> totalDownloaded (step st ev) = totalDownloaded st
              \<and> targetTrafficBytes (step st ev) = targetTrafficBytes st"
proof -
  obtain e now where s: "step st ev = threadCatch st r e now" and n: "err_name e \<noteq> ''AbortError''"
  proof (cases ev)
    case (FetchSettled q res t)
    show ?thesis
    proof (cases res)
      case (FetchResponse ok status)
      with FetchSettled assms that [of "\<lparr>err_name = ''Error'',
          err_message = ''HTTP error! status: '' @ show_nat status\<rparr>" t]
      show ?thesis by (simp add: step_def fetchSettled_def split: if_splits)
    next
      case (FetchRejected e)
      with FetchSettled assms that [of e t]
      show ?thesis by (simp add: step_def fetchSettled_def split: if_splits)
    qed
  next
    case (ReadSettled q res t)
    show ?thesis
    proof (cases res)
      case (ReadRejected e)
      with ReadSettled assms that [of e t]
      show ?thesis by (simp add: step_def readSettled_def split: if_splits)
    qed (use ReadSettled assms in simp_all)
  qed (use assms in simp_all)
  show ?thesis
    using threadCatch_effect [OF assms(1) n assms(3), of now]
    by (simp add: s threadCatch_fields)
qed

lemma step_quiet:
  assumes "isTesting st" and "session_io ev" and "failure_of ev = None"
    and "of_nat (totalDownloaded st + chunk_size ev) < targetTrafficBytes st"
  shows "isTesting (step st ev)
         \<and> interruptedCount (step st ev) = interruptedCount st
         \<and> activeThreads (step st ev) = activeThreads st
         \<and> active_set (step st ev) = active_set st
         \<and> length (heap (step st ev)) = length (heap st)
         \<and> totalDownloaded (step st ev) \<le> totalDownloaded st + chunk_size ev
         \<and> targetTrafficBytes (step st ev) = targetTrafficBytes st"
proof (cases ev)
  case (FetchSettled q res t)
  then show ?thesis
    using assms
    by (cases res)
      (auto simp add: step_def fetchSettled_def log_line_fields interruptedCount_def
        active_set_def split: if_splits)
next
  case (ReadSettled q res t)
  show ?thesis
  proof (cases res)
    case (ReadChunk v)
    show ?thesis
    proof (cases v)
      case None
      with ReadChunk ReadSettled assms show ?thesis
        by (simp add: step_def readSettled_def)
    next
      case (Some n)
      with ReadChunk ReadSettled assms show ?thesis
        by (auto simp add: step_def readSettled_def Let_def interruptedCount_def active_set_def
            nth_list_update not_le)
    qed
  next
    case ReadDone
    with ReadSettled assms show ?thesis by simp
  next
    case (ReadRejected e)
    with ReadSettled assms show ?thesis by (simp split: if_splits)
  qed
next
  case (Tick t)
  with assms show ?thesis
    by (simp add: step_def update_fields interruptedCount_def active_set_def)
qed (use assms in simp_all)

lemma step_idle:
  assumes "\<not> isTesting st" and "session_io ev"
  shows "\<not> isTesting (step st ev) \<and> interruptedCount (step st ev) = interruptedCount st"
proof -
  have tc: "interruptedCount (threadCatch st r e now) = interruptedCount st" for r e now
    using assms(1)
    by (simp add: threadCatch_def Let_def checkAllThreadsCompleted_def interruptedCount_def
        log_line_fields)
  have nt: "\<not> isTesting (step st ev)"
  proof (cases ev)
    case (FetchSettled q res t)
    then show ?thesis using assms(1) fetchSettled_isTesting [of st q res t]
      by (auto simp add: step_def)
  next
    case (ReadSettled q res t)
    then show ?thesis using assms(1) readSettled_isTesting [of st q res t]
      by (auto simp add: step_def)
  next
    case (Tick t)
    then show ?thesis using assms(1) by (simp add: step_def update_fields)
  qed (use assms in simp_all)
  have ic: "interruptedCount (step st ev) = interruptedCount st"
  proof (cases ev)
    case (FetchSettled q res t)
    then show ?thesis
      by (cases res)
        (simp_all add: step_def fetchSettled_def tc, simp add: interruptedCount_def log_line_fields)
  next
    case (ReadSettled q res t)
    show ?thesis
    proof (cases res)
      case (ReadChunk v)
      with ReadSettled assms(1) show ?thesis
        by (cases v)
          (simp_all add: step_def readSettled_def Let_def stopTest_idle interruptedCount_def
            log_line_fields)
    next
      case ReadDone
      with ReadSettled assms show ?thesis by simp
    next
      case (ReadRejected e)
      with ReadSettled show ?thesis by (simp add: step_def readSettled_def tc)
    qed
  next
    case (Tick t)
    then show ?thesis using assms(1) by (simp add: step_def update_def)
  qed (use assms in simp_all)
  from nt ic show ?thesis by simp
qed

lemma run_idle:
  "\<not> isTesting st \<Longrightarrow> \<forall>ev \<in> set evs. session_io ev \<Longrightarrow>
     \<not> isTesting (run st evs) \<and> interruptedCount (run st evs) = interruptedCount st"
proof (induction evs arbitrary: st)
  case Nil
  then show ?case by (simp add: run_Nil)
next
  case (Cons ev evs)
  then show ?case
    using step_idle [of st ev] by (simp add: run_Cons)
qed

lemma failed_refs_Cons:
  "failed_refs (ev # evs) =
     (case failure_of ev of None \<Rightarrow> failed_refs evs | Some r \<Rightarrow> insert r (failed_refs evs))"
  by (simp add: failed_refs_def List.map_filter_simps split: option.splits)

lemma failed_refs_Nil: "failed_refs [] = {}"
  by (simp add: failed_refs_def List.map_filter_simps)

lemma active_set_subset: "active_set st \<subseteq> set (activeThreads st)"
  by (auto simp add: active_set_def)

lemma run_failures:
  assumes "isTesting st"
    and "\<forall>q \<in> set (activeThreads st). q < length (heap st)"
    and "\<forall>ev \<in> set evs. session_io ev"
    and "failed_refs evs \<subseteq> set (activeThreads st)"
    and "of_nat (totalDownloaded st + chunk_bytes evs) < targetTrafficBytes st"
  shows "(isTesting (run st evs)
            \<and> interruptedCount (run st evs) = interruptedCount st
            \<and> active_set (run st evs) = active_set st - failed_refs evs
            \<and> (failed_refs evs \<noteq> {} \<longrightarrow> active_set (run st evs) \<noteq> {}))
         \<or> (\<not> isTesting (run st evs)
            \<and> interruptedCount (run st evs) = interruptedCount st + 1)"
  using assms
proof (induction evs arbitrary: st)
  case Nil
  then show ?case by (simp add: run_Nil failed_refs_Nil)
next
  case (Cons ev evs)
  have io: "session_io ev" "\<forall>e \<in> set evs. session_io e"
    using Cons.prems(3) by simp_all
  have cb: "chunk_bytes (ev # evs) = chunk_size ev + chunk_bytes evs"
    by (simp add: chunk_bytes_def)
  show ?case
  proof (cases "failure_of ev")
    case None
    have fr: "failed_refs (ev # evs) = failed_refs evs"
      using None by (simp add: failed_refs_Cons)
    have b: "of_nat (totalDownloaded st + chunk_size ev) < targetTrafficBytes st"
    proof -
      have "(of_nat (totalDownloaded st + chunk_size ev) :: rat)
          \<le> of_nat (totalDownloaded st + chunk_bytes (ev # evs))"
        unfolding of_nat_le_iff by (simp add: cb)
      then show ?thesis using Cons.prems(5) by simp
    qed
    note q = step_quiet [OF Cons.prems(1) io(1) None b]
    have b': "of_nat (totalDownloaded (step st ev) + chunk_bytes evs)
        < targetTrafficBytes (step st ev)"
    proof -
      have "(of_nat (totalDownloaded (step st ev) + chunk_bytes evs) :: rat)
          \<le> of_nat (totalDownloaded st + chunk_bytes (ev # evs))"
        unfolding of_nat_le_iff using q by (simp add: cb)
      then show ?thesis using Cons.prems(5) q by simp
    qed
    have "(isTesting (run (step st ev) evs)
            \<and> interruptedCount (run (step st ev) evs) = interruptedCount (step st ev)
            \<and> active_set (run (step st ev) evs) = active_set (step st ev) - failed_refs evs
            \<and> (failed_refs evs \<noteq> {} \<longrightarrow> active_set (run (step st ev) evs) \<noteq> {}))
         \<or> (\<not> isTesting (run (step st ev) evs)
            \<and> interruptedCount (run (step st ev) evs) = interruptedCount (step st ev) + 1)"
      using Cons.prems(2,4) q io(2) b'
      by (intro Cons.IH) (simp_all add: fr)
    then show ?thesis
      using q by (simp add: run_Cons fr)
  next
    case (Some r)
    have fr: "failed_refs (ev # evs) = insert r (failed_refs evs)"
      using Some by (simp add: failed_refs_Cons)
    have rv: "r < length (heap st)"
      using Cons.prems(2,4) fr by auto
    have cs: "chunk_size ev = 0"
      using Some by (cases ev rule: chunk_size.cases) simp_all
    note f = step_failure [OF Cons.prems(1) Some rv]
    show ?thesis
    proof (cases "active_set st \<subseteq> {r}")
      case True
      then have "\<not> isTesting (step st ev)"
        "interruptedCount (step st ev) = interruptedCount st + 1"
        using f by simp_all
      then show ?thesis
        using run_idle [of "step st ev" evs] io(2) by (simp add: run_Cons)
    next
      case False
      then have g: "isTesting (step st ev)"
        "interruptedCount (step st ev) = interruptedCount st"
        "activeThreads (step st ev) = activeThreads st"
        "active_set (step st ev) = active_set st - {r}"
        "length (heap (step st ev)) = length (heap st)"
        "totalDownloaded (step st ev) = totalDownloaded st"
        "targetTrafficBytes (step st ev) = targetTrafficBytes st"
        using f by simp_all
      have "(isTesting (run (step st ev) evs)
            \<and> interruptedCount (run (step st ev) evs) = interruptedCount (step st ev)
            \<and> active_set (run (step st ev) evs) = active_set (step st ev) - failed_refs evs
            \<and> (failed_refs evs \<noteq> {} \<longrightarrow> active_set (run (step st ev) evs) \<noteq> {}))
         \<or> (\<not> isTesting (run (step st ev) evs)
            \<and> interruptedCount (run (step st ev) evs) = interruptedCount (step st ev) + 1)"
        using Cons.prems(2,4,5) g io(2)
        by (intro Cons.IH) (simp_all add: fr cb cs)
      moreover have "active_set st - {r} - failed_refs evs = active_set st - insert r (failed_refs evs)"
        by blast
      moreover have "active_set st - {r} \<noteq> {}"
        using False by blast
      ultimately show ?thesis
        using g by (auto simp add: run_Cons fr)
    qed
  qed
qed

text \<open>
  C4: take a running session with at least one thread, and any sequence of chunks,
  responses, ticks and transport errors in which every thread of \<open>activeThreads\<close> fails
  and the chunks do not take the total to the target. After it the session has stopped,
  and the log has exactly one more line "all threads interrupted" than before.
\<close>

theorem all_workers_failed_stops_once:
  assumes "isTesting st"
    and "activeThreads st \<noteq> []"
    and "\<forall>q \<in> set (activeThreads st). q < length (heap st)"
    and "\<forall>ev \<in> set evs. session_io ev"
    and "failed_refs evs = set (activeThreads st)"
    and "of_nat (totalDownloaded st + chunk_bytes evs) < targetTrafficBytes st"
  shows "\<not> isTesting (run st evs) \<and> interruptedCount (run st evs) = interruptedCount st + 1"
proof -
  have ne: "failed_refs evs \<noteq> {}"
    using assms(2,5) by simp
  have "active_set st - failed_refs evs = {}"
    using active_set_subset [of st] assms(5) by blast
  then show ?thesis
    using run_failures [OF assms(1) assms(3) assms(4) _ assms(6)] assms(5) ne by auto
qed

theorem all_workers_failed_stops_once_witness:
  "isTesting example_start \<and> activeThreads example_start = [0, 1]
   \<and> length (heap example_start) = 2
   \<and> list_all session_io example_failures
   \<and> failed_refs example_failures = {0, 1}
   \<and> of_nat (totalDownloaded example_start + chunk_bytes example_failures)
        < targetTrafficBytes example_start
   \<and> \<not> isTesting (run example_start example_failures)
   \<and> interruptedCount (run example_start example_failures) = 1"
proof -
  have io: "list_all session_io example_failures"
    by (simp add: example_failures_def network_error_def)
  have fr: "failed_refs example_failures = {0, 1}"
    by (auto simp add: example_failures_def network_error_def failed_refs_def
        List.map_filter_simps)
  have cb: "chunk_bytes example_failures = 1000"
    by (simp add: example_failures_def chunk_bytes_def)
  have h: "isTesting example_start" "activeThreads example_start \<noteq> []"
    "\<forall>q \<in> set (activeThreads example_start). q < length (heap example_start)"
    "\<forall>ev \<in> set example_failures. session_io ev"
    "failed_refs example_failures = set (activeThreads example_start)"
    "of_nat (totalDownloaded example_start + chunk_bytes example_failures)
        < targetTrafficBytes example_start"
    using io fr by (auto simp add: example_start_facts cb list_all_iff)
  have c: "interruptedCount example_start = 0"
    by (simp add: interruptedCount_def example_start_facts)
  from all_workers_failed_stops_once [OF h] h(1,6) io fr c show ?thesis
    by (simp add: example_start_facts)
qed

subsection \<open>Reconnecting\<close>

text \<open>
  What holds of a reconnect: the end of a stream schedules one callback after 1000 ms
  and fetches nothing; the callback does nothing when the session is not running, and
  otherwise opens one connection for a thread with the same id.
\<close>

lemma readSettled_done:
  "reconnectTimers (readSettled st r ReadDone now) = reconnectTimers st @ [(r, 1000)]
   \<and> requests (readSettled st r ReadDone now) = requests st
   \<and> logs (readSettled st r ReadDone now) = logs st @ [LogReconnecting (thread_id (heap st ! r))]"
  by (simp add: readSettled_def log_line_fields)

lemma reconnectCallback_idle: "\<not> isTesting st \<Longrightarrow> reconnectCallback st r rand now = st"
  by (simp add: reconnectCallback_def)

lemma reconnectCallback_running:
  "isTesting st \<Longrightarrow>
     length (requests (reconnectCallback st r rand now)) = Suc (length (requests st))
     \<and> thread_id (last (heap (reconnectCallback st r rand now))) = thread_id (heap st ! r)"
  by (simp add: reconnectCallback_def reconnectThread_def createTestThread_def Let_def)

lemma reconnect_base_without_query:
  "CHR ''?'' \<notin> set b \<Longrightarrow> takeWhile (\<lambda>c. c \<noteq> CHR ''?'') (b @ ''?thread='' @ x) = b"
  by (induction b) auto

text \<open>
  C5: the claim says that a stop during the delay suppresses the reconnect. The callback
  only reads \<open>isTesting\<close>, and \<open>stopTest\<close> does not clear the timer (as it does for the
  progress timer). In \<open>restart_trace\<close> the stream of thread 0 ends at 500 ms, the session
  is stopped at 700 ms and a new one is started at 900 ms; when the timer of the old
  thread fires at 1500 ms a third connection is opened, and the worker of the new
  session (object 1) has left \<open>activeThreads\<close> while it is still active and not
  aborted.
\<close>

theorem stale_reconnect_after_restart:
  "reconnectTimers (run initial (take 3 restart_trace)) = [(0, 1000)]
   \<and> \<not> isTesting (run initial (take 4 restart_trace))
   \<and> requests (run initial (take 5 restart_trace)) =
       [''https://issuecdn.baidupcs.com/issue/netdisk/apk/BaiduNetdisk_11.44.3.apk?thread=0&r=r0&t=0'',
        ''https://issuecdn.baidupcs.com/issue/netdisk/apk/BaiduNetdisk_11.44.3.apk?thread=0&r=r0&t=900'']
   \<and> activeThreads (run initial (take 5 restart_trace)) = [1]
   \<and> requests (run initial restart_trace) =
       [''https://issuecdn.baidupcs.com/issue/netdisk/apk/BaiduNetdisk_11.44.3.apk?thread=0&r=r0&t=0'',
        ''https://issuecdn.baidupcs.com/issue/netdisk/apk/BaiduNetdisk_11.44.3.apk?thread=0&r=r0&t=900'',
        ''https://issuecdn.baidupcs.com/issue/netdisk/apk/BaiduNetdisk_11.44.3.apk?thread=0&r=r9&t=1500'']
   \<and> activeThreads (run initial restart_trace) = [2]
   \<and> isActive (heap (run initial restart_trace) ! 1)
   \<and> \<not> aborted (heap (run initial restart_trace) ! 1)"
  by code_simp

text \<open>
  C6: the claim says that the URL of a reconnect is the configured test URL, with its
  query string, plus fresh parameters. \<open>reconnectThread\<close> keeps the text before the first
  question mark only. For the preset node \<open>us1\<close>, whose URL carries
  \<open>?bytes=1073741824\<close>, the first connection starts with the configured URL and the
  reconnect does not.
\<close>

theorem reconnect_drops_query:
  "validateTestParams (example_form ''us1'' 1 1 GB) =
     Inr \<lparr>testUrl = ''https://speed.cloudflare.com/__down?bytes=1073741824'',
          threadCount = 1, trafficLimit = 1, trafficUnit = GB\<rparr>
   \<and> isTesting (run initial cloudflare_trace)
   \<and> requests (run initial cloudflare_trace) =
       [''https://speed.cloudflare.com/__down?bytes=1073741824?thread=0&r=r0&t=0'',
        ''https://speed.cloudflare.com/__down?thread=0&r=r9&t=1500'']
   \<and> take 52 (requests (run initial cloudflare_trace) ! 0)
       = ''https://speed.cloudflare.com/__down?bytes=1073741824''
   \<and> take 52 (requests (run initial cloudflare_trace) ! 1)
       \<noteq> ''https://speed.cloudflare.com/__down?bytes=1073741824''"
  by code_simp

subsection \<open>Progress\<close>

text \<open>
  C7: with a positive target, the progress written by \<open>updateProgressUI\<close> (at a tick
  and at the stop) is \<open>min(100, 100 * totalDownloaded / targetBytes)\<close>; along the events
  of one session (no new start) the target stays and the total does not decrease, so a
  later progress is never below an earlier one; and it is at most 100.
\<close>

theorem progress_monotone:
  assumes "0 < targetTrafficBytes st" and "\<forall>ev \<in> set evs. \<not> is_start ev"
  shows "progressElement (updateProgressUI st sp) = Some (Finite (spec_progress st))
    \<and> (isTesting st \<and> updateTimer st \<longrightarrow>
         progressElement (step st (Tick now)) = Some (Finite (spec_progress st)))
    \<and> progressElement (updateProgressUI (run st evs) sp') = Some (Finite (spec_progress (run st evs)))
    \<and> spec_progress st \<le> spec_progress (run st evs)
    \<and> spec_progress (run st evs) \<le> 100"
proof -
  have m: "totalDownloaded st \<le> totalDownloaded (run st evs)"
    "targetTrafficBytes (run st evs) = targetTrafficBytes st"
    using run_total_mono [OF assms(2), of st] by simp_all
  have p: "progressElement (updateProgressUI s x) = Some (Finite (spec_progress s))"
    if "0 < targetTrafficBytes s" for s x
    using that
    by (simp add: updateProgressUI_def Let_def progress_of_def spec_progress_def mult.commute)
  have t: "progressElement (step st (Tick now)) = Some (Finite (spec_progress st))"
    if "isTesting st" "updateTimer st"
    using that assms(1)
    by (simp add: step_def update_def updateProgress_def Let_def updateProgressUI_def
        progress_of_def spec_progress_def mult.commute)
  have "100 * of_nat (totalDownloaded st) / targetTrafficBytes st
      \<le> 100 * of_nat (totalDownloaded (run st evs)) / targetTrafficBytes st"
    using m(1) assms(1) by (simp add: divide_le_cancel)
  then have le: "spec_progress st \<le> spec_progress (run st evs)"
    by (simp add: spec_progress_def m(2) min_le_iff_disj)
  show ?thesis
    using p [of st sp] p [of "run st evs" sp'] t le assms(1)
    by (simp add: m(2) spec_progress_def)
qed

theorem progress_monotone_witness:
  "0 < targetTrafficBytes example_session
   \<and> list_all (\<lambda>ev. \<not> is_start ev) [ReadSettled 1 (ReadChunk (Some 20000)) 150, Tick 200]
   \<and> spec_progress example_session
       \<le> spec_progress (run example_session [ReadSettled 1 (ReadChunk (Some 20000)) 150, Tick 200])
   \<and> spec_progress (run example_session [ReadSettled 1 (ReadChunk (Some 20000)) 150, Tick 200])
       \<le> 100
   \<and> progressElement (step example_session (Tick 200))
       = Some (Finite (spec_progress example_session))
   \<and> spec_progress example_session = 100 * 1000000 / 1048576"
proof -
  have h: "0 < targetTrafficBytes example_session"
    "\<forall>ev \<in> set [ReadSettled 1 (ReadChunk (Some 20000)) 150, Tick 200]. \<not> is_start ev"
    by (simp_all add: example_session_facts)
  from progress_monotone [OF h, of "Finite 0" 200 "Finite 0"] h(1) show ?thesis
    by (simp add: example_session_facts spec_progress_def)
qed

subsection \<open>The target in bytes\<close>

text \<open>
  C8, as stated: the target of an accepted configuration is an integer of at least 1.
  A limit of 2^-21 MB (0.000000476837158203125) is accepted, and its target is half a
  byte.
\<close>

theorem targetTrafficBytes_counterexample:
  "validateTestParams (example_form ''cn1'' 2 (1 / 2097152) MB)
     = Inr \<lparr>testUrl = ''https://issuecdn.baidupcs.com/issue/netdisk/apk/BaiduNetdisk_11.44.3.apk'',
            threadCount = 2, trafficLimit = 1 / 2097152, trafficUnit = MB\<rparr>
   \<and> targetTrafficBytes
        (startTest initial (example_form ''cn1'' 2 (1 / 2097152) MB) 0 (example_env 0) 0) = 1 / 2
   \<and> \<not> 1 \<le> targetTrafficBytes
        (startTest initial (example_form ''cn1'' 2 (1 / 2097152) MB) 0 (example_env 0) 0)
   \<and> of_int \<lfloor>targetTrafficBytes
        (startTest initial (example_form ''cn1'' 2 (1 / 2097152) MB) 0 (example_env 0) 0)\<rfloor>
      \<noteq> targetTrafficBytes
        (startTest initial (example_form ''cn1'' 2 (1 / 2097152) MB) 0 (example_env 0) 0)"
proof -
  have v: "validateTestParams (example_form ''cn1'' 2 (1 / 2097152) MB)
     = Inr \<lparr>testUrl = ''https://issuecdn.baidupcs.com/issue/netdisk/apk/BaiduNetdisk_11.44.3.apk'',
            threadCount = 2, trafficLimit = 1 / 2097152, trafficUnit = MB\<rparr>"
    by code_simp
  have t: "targetTrafficBytes
        (startTest initial (example_form ''cn1'' 2 (1 / 2097152) MB) 0 (example_env 0) 0) = 1 / 2"
    by code_simp
  have f: "\<lfloor>1 / 2 :: rat\<rfloor> = 0"
    by (rule floor_unique) simp_all
  show ?thesis
    unfolding t using v by (simp add: f)
qed

text \<open>
  C8, amended: for every configuration accepted by the validation, the target of the
  session is the limit times 2^20 (MB), 2^30 (GB) or 2^40 (TB), and it is greater than 0.
\<close>

theorem targetTrafficBytes_positive:
  assumes "validateTestParams f = Inr p" and "\<not> isTesting st"
  shows "targetTrafficBytes (startTest st f now env now2)
           = trafficLimit p * unitMultipliers (trafficUnit p)
    \<and> 0 < targetTrafficBytes (startTest st f now env now2)
    \<and> trafficLimitInput f = Some (trafficLimit p) \<and> trafficUnitSelect f = trafficUnit p
    \<and> unitMultipliers MB = 2 ^ 20 \<and> unitMultipliers GB = 2 ^ 30 \<and> unitMultipliers TB = 2 ^ 40"
  using startTest_accepted [OF assms(2) assms(1), of now env now2]
    validateTestParams_accepted [OF assms(1)] unitMultipliers_pos [of "trafficUnit p"]
  by simp

theorem targetTrafficBytes_positive_witness:
  "validateTestParams (example_form ''cn1'' 2 (1 / 2) GB)
     = Inr \<lparr>testUrl = ''https://issuecdn.baidupcs.com/issue/netdisk/apk/BaiduNetdisk_11.44.3.apk'',
            threadCount = 2, trafficLimit = 1 / 2, trafficUnit = GB\<rparr>
   \<and> \<not> isTesting initial
   \<and> targetTrafficBytes (startTest initial (example_form ''cn1'' 2 (1 / 2) GB) 0 (example_env 0) 0)
       = 536870912
   \<and> 0 < targetTrafficBytes
       (startTest initial (example_form ''cn1'' 2 (1 / 2) GB) 0 (example_env 0) 0)"
proof -
  have h: "validateTestParams (example_form ''cn1'' 2 (1 / 2) GB)
     = Inr \<lparr>testUrl = ''https://issuecdn.baidupcs.com/issue/netdisk/apk/BaiduNetdisk_11.44.3.apk'',
            threadCount = 2, trafficLimit = 1 / 2, trafficUnit = GB\<rparr>"
    "\<not> isTesting initial"
    by code_simp+
  from targetTrafficBytes_positive [OF h, of 0 "example_env 0" 0] h show ?thesis
    by simp
qed

subsection \<open>The traffic display\<close>

lemma scale_loop_0:
  "scale_loop v 0 =
    (if v < 1024 then (v, 0) else if v / 1024 < 1024 then (v / 1024, 1) else (v / 1024 / 1024, 2))"
proof -
  have a: "scale_loop v 0 = (if v \<ge> 1024 then scale_loop (v / 1024) (Suc 0) else (v, 0))"
    by (subst scale_loop.simps) (simp add: sizes_def)
  have b: "scale_loop w (Suc 0) =
      (if w \<ge> 1024 then scale_loop (w / 1024) (Suc (Suc 0)) else (w, Suc 0))" for w
    by (subst scale_loop.simps) (simp add: sizes_def)
  have c: "scale_loop w (Suc (Suc 0)) = (w, Suc (Suc 0))" for w
    by (subst scale_loop.simps) (simp add: sizes_def)
  show ?thesis
    unfolding a b c by (simp add: not_le numeral_2_eq_2)
qed

lemma formatTrafficDisplay_cases:
  "formatTrafficDisplay bytes =
    (if bytes = 0 then (0, MB)
     else if (of_nat bytes :: rat) < 1024 * 1024 * 1024 then (of_nat bytes / (1024 * 1024), MB)
     else if (of_nat bytes :: rat) < 1024 * 1024 * 1024 * 1024
       then (of_nat bytes / (1024 * 1024 * 1024), GB)
     else (of_nat bytes / (1024 * 1024 * 1024 * 1024), TB))"
  by (simp add: formatTrafficDisplay_def scale_loop_0 sizes_def divide_simps)

text \<open>
  C9, as stated: for every byte count the displayed magnitude is below 1024. It fails
  at 2^50 bytes (1024 TB): the loop stops at the last unit, TB, and shows 1024.
\<close>

theorem formatTrafficDisplay_magnitude_counterexample:
  "formatTrafficDisplay (2 ^ 50) = (1024, TB) \<and> \<not> fst (formatTrafficDisplay (2 ^ 50)) < 1024"
  by (simp add: formatTrafficDisplay_cases)

text \<open>
  C9, amended: the formatter starts at MB and steps up through GB to TB, dividing by
  1024 while the value is at least 1024 and the unit is below TB. The value shown times
  the unit is the byte count. The magnitude is below 1024 whenever the unit is MB or
  GB, and for every byte count below 2^50; from 2^50 bytes on the unit is TB and the
  magnitude is 1024 or more. 1,048,576 bytes are 1 MB, 1,073,741,824 bytes are 1 GB, and
  exactly 1024 MB or 1024 GB step up to 1 GB and to 1 TB.
\<close>

theorem formatTrafficDisplay_magnitude:
  "(snd (formatTrafficDisplay bytes) \<noteq> TB \<longrightarrow> fst (formatTrafficDisplay bytes) < 1024)
   \<and> (bytes < 2 ^ 50 \<longrightarrow> fst (formatTrafficDisplay bytes) < 1024)
   \<and> (bytes \<ge> 2 ^ 50 \<longrightarrow>
        snd (formatTrafficDisplay bytes) = TB \<and> fst (formatTrafficDisplay bytes) \<ge> 1024)
   \<and> fst (formatTrafficDisplay bytes) * unitMultipliers (snd (formatTrafficDisplay bytes))
       = of_nat bytes
   \<and> formatTrafficDisplay 1048576 = (1, MB)
   \<and> formatTrafficDisplay 1073741824 = (1, GB)
   \<and> formatTrafficDisplay (1024 * 1048576) = (1, GB)
   \<and> formatTrafficDisplay (1024 * 1073741824) = (1, TB)"
proof -
  have k: "(of_nat bytes :: rat) < 1125899906842624 \<longleftrightarrow> bytes < 1125899906842624"
    using of_nat_less_iff [of bytes 1125899906842624, where ?'a = rat] by simp
  show ?thesis
    by (simp add: formatTrafficDisplay_cases k not_less)
qed

theorem formatTrafficDisplay_magnitude_witness:
  "(5368709120 :: nat) < 2 ^ 50
   \<and> snd (formatTrafficDisplay 5368709120) \<noteq> TB
   \<and> fst (formatTrafficDisplay 5368709120) < 1024
   \<and> formatTrafficDisplay 5368709120 = (5, GB)"
  using formatTrafficDisplay_magnitude [of 5368709120]
  by (simp add: formatTrafficDisplay_cases)

subsection \<open>The summary of a stop\<close>

text \<open>
  C10: the last line \<open>stopTest\<close> logs for a running session carries the elapsed seconds,
  the total, and the mean throughput in MB/s: the total divided by the elapsed seconds
  (and by 2^20) when the elapsed time is positive, and 0 otherwise; for a session
  stopped at the instant it started the mean is 0.
\<close>

theorem stopTest_summary:
  assumes "isTesting st"
  shows "last (logs (stopTest st now)) =
           LogTestStopped (of_int (now - startTime st) / 1000)
             (if now - startTime st > 0
              then (of_nat (totalDownloaded st) / (of_int (now - startTime st) / 1000))
                   / (1024 * 1024)
              else 0)
             (totalDownloaded st)
         \<and> (now = startTime st \<longrightarrow>
              last (logs (stopTest st now)) = LogTestStopped 0 0 (totalDownloaded st))"
  using assms
  by (simp add: stopTest_def Let_def log_line_fields updateProgressUI_fields
      fold_abortThread_fields)

theorem stopTest_summary_witness:
  "isTesting (initial\<lparr>isTesting := True, totalDownloaded := 2097152, startTime := 1000\<rparr>)
   \<and> last (logs (stopTest
        (initial\<lparr>isTesting := True, totalDownloaded := 2097152, startTime := 1000\<rparr>) 3000))
       = LogTestStopped 2 1 2097152
   \<and> last (logs (stopTest
        (initial\<lparr>isTesting := True, totalDownloaded := 2097152, startTime := 1000\<rparr>) 1000))
       = LogTestStopped 0 0 2097152"
  using stopTest_summary
    [of "initial\<lparr>isTesting := True, totalDownloaded := 2097152, startTime := 1000\<rparr>" 3000]
    stopTest_summary
    [of "initial\<lparr>isTesting := True, totalDownloaded := 2097152, startTime := 1000\<rparr>" 1000]
  by (simp add: initial_def)

end
